theory Spec2Isabelle
  imports Complex_Main
begin

section \<open>Strings and errors\<close>

text \<open>
  A Python \<open>str\<close> is a sequence of Unicode code points, so a string is a list of code
  points (\<open>nat\<close>). The em dash of the source, U+2014, is the code point 8212 and does not
  fit a byte. \<open>lit\<close> writes an ASCII literal.
\<close>

type_synonym pystr = "nat list"

definition lit :: "string \<Rightarrow> pystr" where
  "lit s = map of_char s"

definition em_dash :: pystr where
  "em_dash = [8212]"

definition comma :: nat where
  "comma = 44"

text \<open>
  The exceptions the notebook's code can raise, all of them subclasses of Python's
  \<open>Exception\<close>, so that \<open>except Exception\<close> catches each of them.
  \<open>DatabaseError\<close> is what the MySQL driver raises and \<open>ExternalError\<close> what
  another collaborator outside the notebook raises (the HTTP client, the file system).
  \<open>Unmodelled\<close> marks the places where the model stops: \<open>extract\<close> handing
  pandas a \<open>Tag\<close> other than one around a single string where the \<open>DataFrame\<close>
  constructor expects a scalar, and a statement whose interpolated names are not plain
  identifiers.
\<close>

datatype error =
    IndexError
  | KeyError
  | ValueError
  | AttributeError
  | NameError
  | InvalidIndexError
  | DatabaseError
  | ExternalError pystr
  | Unmodelled

section \<open>The parsed document\<close>

text \<open>
  \<open>BeautifulSoup(webpage, 'html.parser')\<close> gives a tree of \<open>Tag\<close>s and
  \<open>NavigableString\<close>s. A \<open>Tag\<close> has a name and its \<open>contents\<close>, the list of
  its direct children; attributes play no part in \<open>extract\<close>.
\<close>

datatype node = NavigableString pystr | Tag pystr "node list"

fun contents :: "node \<Rightarrow> node list" where
  "contents (Tag n cs) = cs"
| "contents (NavigableString s) = []"

text \<open>All nodes below a node, in document order (a parent before its children).\<close>

fun descendants :: "node \<Rightarrow> node list"
  and descendants_list :: "node list \<Rightarrow> node list" where
  "descendants (NavigableString s) = []"
| "descendants (Tag n cs) = descendants_list cs"
| "descendants_list [] = []"
| "descendants_list (c # cs) = c # descendants c @ descendants_list cs"

fun is_tag :: "pystr \<Rightarrow> node \<Rightarrow> bool" where
  "is_tag name (Tag n cs) = (n = name)"
| "is_tag name (NavigableString s) = False"

text \<open>\<open>tag.find_all(name)\<close>: every descendant \<open>Tag\<close> of that name, in document order.\<close>

definition find_all :: "pystr \<Rightarrow> node \<Rightarrow> node list" where
  "find_all name t = filter (is_tag name) (descendants t)"

text \<open>\<open>tag.find(name)\<close>, also written \<open>tag.name\<close>: the first such descendant, or \<open>None\<close>.\<close>

definition find_tag :: "pystr \<Rightarrow> node \<Rightarrow> node option" where
  "find_tag name t = (case find_all name t of [] \<Rightarrow> None | x # _ \<Rightarrow> Some x)"

text \<open>
  \<open>x in tag\<close> is \<open>x in tag.contents\<close>: some direct child equals \<open>x\<close>. A \<open>str\<close>
  equals a \<open>NavigableString\<close> of the same text and never a \<open>Tag\<close>.
\<close>

definition str_in_tag :: "pystr \<Rightarrow> node \<Rightarrow> bool" where
  "str_in_tag x t = (NavigableString x \<in> set (contents t))"

section \<open>Data frames\<close>

text \<open>
  A floating-point value (Python \<open>float\<close>, numpy \<open>float64\<close>): a finite binary64
  number, kept as the rational it denotes, an infinity or a NaN. The sign of zero is not
  tracked.
\<close>

datatype double = Finite rat | PInf | NInf | NaN

text \<open>
  The objects a column of this program holds: strings, and floats (the converted values,
  and the NaN with which \<open>pd.concat\<close> fills a missing cell).
\<close>

datatype pyobj = Str pystr | Flt double

datatype dtype = Object | Float64

record column =
  cname :: pystr
  cdtype :: dtype
  cvalues :: "pyobj list"

text \<open>A \<open>DataFrame\<close>: its columns in order. The row index is always \<open>0 .. n - 1\<close> here.\<close>

type_synonym dataframe = "column list"

definition columns :: "dataframe \<Rightarrow> pystr list" where
  "columns df = map cname df"

definition nrows :: "dataframe \<Rightarrow> nat" where
  "nrows df = (case df of [] \<Rightarrow> 0 | c # _ \<Rightarrow> length (cvalues c))"

text \<open>\<open>pd.DataFrame(columns=table_attribs)\<close>: the named columns, of dtype object, no rows.\<close>

definition DataFrame_columns :: "pystr list \<Rightarrow> dataframe" where
  "DataFrame_columns table_attribs =
     map (\<lambda>n. \<lparr>cname = n, cdtype = Object, cvalues = []\<rparr>) table_attribs"

text \<open>
  \<open>pd.DataFrame(data_dict, index=[0])\<close>: one row. A \<open>NavigableString\<close> is a
  \<open>str\<close> and so a scalar. A \<open>Tag\<close> is not: pandas takes it for the list of its
  children, and one whose only child is a string gives that string as the cell. What
  pandas builds from any other \<open>Tag\<close> is not modelled.
\<close>

fun DataFrame_dict :: "(pystr \<times> node) list \<Rightarrow> error + dataframe" where
  "DataFrame_dict [] = Inr []"
| "DataFrame_dict ((k, NavigableString s) # kvs) =
     (case DataFrame_dict kvs of
        Inl e \<Rightarrow> Inl e
      | Inr df \<Rightarrow> Inr (\<lparr>cname = k, cdtype = Object, cvalues = [Str s]\<rparr> # df))"
| "DataFrame_dict ((k, Tag n [NavigableString s]) # kvs) =
     (case DataFrame_dict kvs of
        Inl e \<Rightarrow> Inl e
      | Inr df \<Rightarrow> Inr (\<lparr>cname = k, cdtype = Object, cvalues = [Str s]\<rparr> # df))"
| "DataFrame_dict ((k, Tag n cs) # kvs) = Inl Unmodelled"

text \<open>
  \<open>pd.concat([df, df1], ignore_index=True)\<close> for a one-row \<open>df1\<close>: the columns of
  \<open>df\<close> followed by those only \<open>df1\<close> has; a cell that one of the frames lacks is
  NaN. pandas refuses to align a frame whose column names repeat.
\<close>

definition cell_of :: "dataframe \<Rightarrow> pystr \<Rightarrow> pyobj" where
  "cell_of df1 n =
     (case filter (\<lambda>c. cname c = n) df1 of
        [] \<Rightarrow> Flt NaN
      | c # _ \<Rightarrow> (case cvalues c of [] \<Rightarrow> Flt NaN | v # _ \<Rightarrow> v))"

definition pd_concat :: "dataframe \<Rightarrow> dataframe \<Rightarrow> error + dataframe" where
  "pd_concat df df1 =
     (if columns df = columns df1 then
        Inr (map (\<lambda>c. c\<lparr>cvalues := cvalues c @ [cell_of df1 (cname c)]\<rparr>) df)
      else if \<not> distinct (columns df) then Inl InvalidIndexError
      else
        Inr (map (\<lambda>c. c\<lparr>cdtype := Object, cvalues := cvalues c @ [cell_of df1 (cname c)]\<rparr>) df
             @ map (\<lambda>c. c\<lparr>cdtype := Object,
                           cvalues := replicate (nrows df) (Flt NaN) @ cvalues c\<rparr>)
                 (filter (\<lambda>c. cname c \<notin> set (columns df)) df1)))"

section \<open>Extraction\<close>

definition URL :: pystr where
  "URL = lit ''https://web.archive.org/web/20230902185326/https://en.wikipedia.org/wiki/List_of_countries_by_GDP_%28nominal%29''"

definition TABLE_ATTRIBS :: "pystr list" where
  "TABLE_ATTRIBS = [lit ''Country'', lit ''GDP_USD_millions'']"

text \<open>
  \<open>tables[2]\<close> of \<open>tables = soup.find_all('tbody')\<close>, then
  \<open>rows = tables[2].find_all('tr')\<close>. A list shorter than three raises IndexError.
\<close>

definition table_rows :: "node \<Rightarrow> error + node list" where
  "table_rows soup =
     (let tables = find_all (lit ''tbody'') soup
      in if length tables < 3 then Inl IndexError
         else Inr (find_all (lit ''tr'') (tables ! 2)))"

text \<open>
  The condition of the inner \<open>if\<close>, for a row with cells \<open>col\<close>:
  \<open>col[0].find('a') is not None and '\<emdash>' not in col[2]\<close>. The \<open>and\<close> does not
  look at \<open>col[2]\<close> when the first test is false; when it does and the row has fewer
  than three cells, \<open>col[2]\<close> raises IndexError.
\<close>

definition inclusion_test :: "node list \<Rightarrow> error + bool" where
  "inclusion_test col =
     (if find_tag (lit ''a'') (col ! 0) = None then Inr False
      else if length col < 3 then Inl IndexError
      else Inr (\<not> str_in_tag em_dash (col ! 2)))"

text \<open>\<open>xs[0]\<close>.\<close>

definition first :: "'a list \<Rightarrow> error + 'a" where
  "first xs = (case xs of [] \<Rightarrow> Inl IndexError | x # _ \<Rightarrow> Inr x)"

text \<open>
  The dict of an included row:
  \<open>{"Country": col[0].a.contents[0], "GDP_USD_millions": col[2].contents[0]}\<close>.
\<close>

definition data_dict :: "node list \<Rightarrow> error + (pystr \<times> node) list" where
  "data_dict col =
     (case find_tag (lit ''a'') (col ! 0) of
        None \<Rightarrow> Inl AttributeError
      | Some a \<Rightarrow>
          (case first (contents a) of
             Inl e \<Rightarrow> Inl e
           | Inr country \<Rightarrow>
               (case first (contents (col ! 2)) of
                  Inl e \<Rightarrow> Inl e
                | Inr gdp \<Rightarrow>
                    Inr [(lit ''Country'', country), (lit ''GDP_USD_millions'', gdp)])))"

text \<open>The body of \<open>for row in rows\<close>, with the frame \<open>df\<close> built so far.\<close>

fun extract_rows :: "dataframe \<Rightarrow> node list \<Rightarrow> error + dataframe" where
  "extract_rows df [] = Inr df"
| "extract_rows df (row # rows) =
     (let col = find_all (lit ''td'') row
      in if length col \<noteq> 0 then
           (case inclusion_test col of
              Inl e \<Rightarrow> Inl e
            | Inr False \<Rightarrow> extract_rows df rows
            | Inr True \<Rightarrow>
                (case data_dict col of
                   Inl e \<Rightarrow> Inl e
                 | Inr d \<Rightarrow>
                     (case DataFrame_dict d of
                        Inl e \<Rightarrow> Inl e
                      | Inr df1 \<Rightarrow>
                          (case pd_concat df df1 of
                             Inl e \<Rightarrow> Inl e
                           | Inr df' \<Rightarrow> extract_rows df' rows))))
         else extract_rows df rows)"

text \<open>
  \<open>extract(url, table_attribs)\<close>, under the name \<open>extract_data\<close> because
  \<open>extract\<close> is a keyword of Isabelle. The page behind \<open>url\<close> as the HTTP client
  and the HTML parser deliver it is the parameter \<open>web\<close>: the parsed document, or the
  error of the fetch.
\<close>

definition extract_data :: "(pystr \<Rightarrow> error + node) \<Rightarrow> pystr \<Rightarrow> pystr list \<Rightarrow> error + dataframe" where
  "extract_data web url table_attribs =
     (case web url of
        Inl e \<Rightarrow> Inl e
      | Inr soup \<Rightarrow>
          (let df = DataFrame_columns table_attribs
           in case table_rows soup of
                Inl e \<Rightarrow> Inl e
              | Inr rows \<Rightarrow> extract_rows df rows))"

subsection \<open>What the extraction is compared with\<close>

text \<open>
  The textual content of an element (\<open>get_text()\<close>): the strings below it, joined in
  document order.
\<close>

fun get_text :: "node \<Rightarrow> pystr" where
  "get_text (NavigableString s) = s"
| "get_text (Tag n cs) = concat (map get_text cs)"

text \<open>
  The inclusion rule in the specification's words: at least one cell, a hyperlink in
  cell 0, and the textual content of cell 2 is not the em dash.
\<close>

definition claimed_included :: "node \<Rightarrow> bool" where
  "claimed_included row =
     (let col = find_all (lit ''td'') row
      in 1 \<le> length col \<and> find_tag (lit ''a'') (col ! 0) \<noteq> None
         \<and> get_text (col ! 2) \<noteq> em_dash)"

text \<open>
  The inclusion rule the loop applies: at least one cell, a hyperlink in cell 0, and no
  direct child of cell 2 is the string of one em dash.
\<close>

definition included :: "node \<Rightarrow> bool" where
  "included row =
     (let col = find_all (lit ''td'') row
      in 1 \<le> length col \<and> find_tag (lit ''a'') (col ! 0) \<noteq> None
         \<and> \<not> str_in_tag em_dash (col ! 2))"

fun first_string :: "node list \<Rightarrow> pystr option" where
  "first_string (NavigableString s # cs) = Some s"
| "first_string cs = None"

text \<open>
  The record of a row: the first child of the first hyperlink of cell 0 and the first
  child of cell 2, when both are strings.
\<close>

definition record_of :: "node \<Rightarrow> (pystr \<times> pystr) option" where
  "record_of row =
     (let col = find_all (lit ''td'') row
      in case find_tag (lit ''a'') (col ! 0) of
           None \<Rightarrow> None
         | Some a \<Rightarrow>
             (case (first_string (contents a), first_string (contents (col ! 2))) of
                (Some country, Some gdp_raw) \<Rightarrow> Some (country, gdp_raw)
              | _ \<Rightarrow> None))"

text \<open>
  The rows on which the loop body neither raises nor hands pandas a \<open>Tag\<close>: a row with
  a hyperlink in cell 0 has three cells, and when it passes the test both fields are
  strings.
\<close>

definition row_readable :: "node \<Rightarrow> bool" where
  "row_readable row =
     (let col = find_all (lit ''td'') row
      in col = [] \<or> find_tag (lit ''a'') (col ! 0) = None
         \<or> (3 \<le> length col \<and> (str_in_tag em_dash (col ! 2) \<or> record_of row \<noteq> None)))"

text \<open>
  A row the loop passes over: no cells, or the condition of the inner \<open>if\<close> is false,
  that is, cell 0 has no hyperlink, or the row has three cells and the em dash is a direct
  child of cell 2.
\<close>

definition row_dropped :: "node \<Rightarrow> bool" where
  "row_dropped row =
     (find_all (lit ''td'') row = [] \<or> inclusion_test (find_all (lit ''td'') row) = Inr False)"

text \<open>The raw Dataset as a frame: the two columns of \<open>TABLE_ATTRIBS\<close>, one row per record.\<close>

definition frame_of :: "(pystr \<times> pystr) list \<Rightarrow> dataframe" where
  "frame_of recs =
     [\<lparr>cname = lit ''Country'', cdtype = Object, cvalues = map (\<lambda>r. Str (fst r)) recs\<rparr>,
      \<lparr>cname = lit ''GDP_USD_millions'', cdtype = Object,
        cvalues = map (\<lambda>r. Str (snd r)) recs\<rparr>]"

subsection \<open>Example rows and documents\<close>

definition td_of :: "node list \<Rightarrow> node" where
  "td_of cs = Tag (lit ''td'') cs"

definition link :: "string \<Rightarrow> node" where
  "link s = Tag (lit ''a'') [NavigableString (lit s)]"

definition txt_node :: "string \<Rightarrow> node" where
  "txt_node s = NavigableString (lit s)"

definition row_A :: node where
  "row_A = Tag (lit ''tr'') [td_of [link ''A''], td_of [txt_node ''Asia''], td_of [txt_node ''1,000'']]"

definition row_B :: node where
  "row_B = Tag (lit ''tr'') [td_of [txt_node ''B''], td_of [txt_node ''Asia''], td_of [txt_node ''2,000'']]"

definition row_C :: node where
  "row_C = Tag (lit ''tr'') [td_of [link ''C''], td_of [txt_node ''Asia''], td_of [NavigableString em_dash]]"

text \<open>A placeholder with a footnote mark, \<open><td>\<emdash><sup>[n 1]</sup></td>\<close>.\<close>

definition row_note :: node where
  "row_note = Tag (lit ''tr'')
     [td_of [link ''D''], td_of [txt_node ''Asia''],
      td_of [NavigableString em_dash, Tag (lit ''sup'') [txt_node ''[n 1]'']]]"

definition header_row :: node where
  "header_row = Tag (lit ''tr'') [Tag (lit ''th'') [txt_node ''Country'']]"

definition table_of :: "node list \<Rightarrow> node" where
  "table_of rows = Tag (lit ''table'') [Tag (lit ''tbody'') rows]"

definition soup3 :: node where
  "soup3 = Tag (lit ''[document]'')
     [table_of [row_B], table_of [row_C], table_of [header_row, row_A, row_B, row_C]]"

definition soup2 :: node where
  "soup2 = Tag (lit ''[document]'') [table_of [row_A], table_of [row_A]]"

text \<open>A row of two cells with a hyperlink in the first, and a page whose data table is that row.\<close>

definition row_E :: node where
  "row_E = Tag (lit ''tr'') [td_of [link ''E''], td_of [txt_node ''1'']]"

definition soup_short :: node where
  "soup_short = Tag (lit ''[document]'') [table_of [row_A], table_of [row_A], table_of [row_E]]"

definition soup_placeholders :: node where
  "soup_placeholders = Tag (lit ''[document]'')
     [table_of [row_A], table_of [row_A], table_of [header_row, row_B, row_C]]"

section \<open>Floating point\<close>

text \<open>
  Binary64 arithmetic, as far as \<open>transform\<close> uses it. Every operation gives the
  exact result rounded to the nearest binary64 number, ties to even; a result of
  magnitude \<open>2^1024\<close> or more is an infinity.
\<close>

definition pow2 :: "int \<Rightarrow> rat" where
  "pow2 k = (if 0 \<le> k then 2 ^ nat k else 1 / 2 ^ nat (- k))"

definition pow10 :: "int \<Rightarrow> rat" where
  "pow10 k = (if 0 \<le> k then 10 ^ nat k else 1 / 10 ^ nat (- k))"

fun bitlen :: "nat \<Rightarrow> nat" where
  "bitlen n = (if n = 0 then 0 else Suc (bitlen (n div 2)))"

declare bitlen.simps [simp del]

text \<open>
  \<open>\<lfloor>log\<^sub>2 a\<rfloor>\<close> for a positive rational: from the bit length of \<open>\<lfloor>a\<rfloor>\<close> when
  \<open>1 \<le> a\<close>, and of \<open>\<lceil>1 / a\<rceil> - 1\<close> otherwise.
\<close>

definition ilog2 :: "rat \<Rightarrow> int" where
  "ilog2 a =
     (if 1 \<le> a then int (bitlen (nat \<lfloor>a\<rfloor>)) - 1
      else - int (bitlen (nat (\<lceil>1 / a\<rceil> - 1))))"

definition round_half_even :: "rat \<Rightarrow> int" where
  "round_half_even r =
     (let f = \<lfloor>r\<rfloor>; d = r - of_int f
      in if d < 1 / 2 then f
         else if 1 / 2 < d then f + 1
         else if even f then f else f + 1)"

text \<open>
  Rounding a rational to binary64: 53 significant bits, the exponent of the last bit never
  below \<open>-1074\<close> (the subnormal numbers).
\<close>

definition fl :: "rat \<Rightarrow> double" where
  "fl x =
     (if x = 0 then Finite 0
      else
        let a = \<bar>x\<bar>;
            e = max (ilog2 a - 52) (- 1074);
            y = of_int (round_half_even (a / pow2 e)) * pow2 e
        in if pow2 1024 \<le> y then (if 0 < x then PInf else NInf)
           else Finite (if 0 < x then y else - y))"

text \<open>\<open>x / c\<close> and \<open>x * c\<close> for a finite positive constant \<open>c\<close>.\<close>

fun div_by :: "double \<Rightarrow> rat \<Rightarrow> double" where
  "div_by (Finite q) c = fl (q / c)"
| "div_by PInf c = PInf"
| "div_by NInf c = NInf"
| "div_by NaN c = NaN"

fun mul_by :: "double \<Rightarrow> rat \<Rightarrow> double" where
  "mul_by (Finite q) c = fl (q * c)"
| "mul_by PInf c = PInf"
| "mul_by NInf c = NInf"
| "mul_by NaN c = NaN"

text \<open>\<open>np.rint\<close>: the nearest integer, ties to even.\<close>

fun rint :: "double \<Rightarrow> double" where
  "rint (Finite q) = Finite (of_int (round_half_even q))"
| "rint PInf = PInf"
| "rint NInf = NInf"
| "rint NaN = NaN"

text \<open>
  \<open>np.round(x, decimals)\<close> for a float and \<open>decimals \<ge> 0\<close>: numpy multiplies by
  \<open>10 ** decimals\<close>, applies \<open>rint\<close> and divides again; for \<open>decimals = 0\<close> it
  applies \<open>rint\<close> alone.
\<close>

definition np_round :: "double \<Rightarrow> nat \<Rightarrow> double" where
  "np_round x decimals =
     (if decimals = 0 then rint x
      else div_by (rint (mul_by x (10 ^ decimals))) (10 ^ decimals))"

subsection \<open>float(str)\<close>

definition is_space :: "nat \<Rightarrow> bool" where
  "is_space c = ((9 \<le> c \<and> c \<le> 13) \<or> c = 32)"

definition is_digit :: "nat \<Rightarrow> bool" where
  "is_digit c = (48 \<le> c \<and> c \<le> 57)"

text \<open>The white space of Unicode 14 beyond ASCII.\<close>

definition unicode_spaces :: "nat list" where
  "unicode_spaces =
     [133, 160, 5760, 8192, 8193, 8194, 8195, 8196, 8197, 8198, 8199, 8200, 8201, 8202,
      8232, 8233, 8239, 8287, 12288]"

text \<open>
  The decimal digits of Unicode 14 (category Nd) come in runs of ten, \<open>0\<close> to \<open>9\<close>;
  these are the code points of the zeros.
\<close>

definition decimal_starts :: "nat list" where
  "decimal_starts =
     [48, 1632, 1776, 1984, 2406, 2534, 2662, 2790, 2918, 3046, 3174, 3302, 3430, 3558,
      3664, 3792, 3872, 4160, 4240, 6112, 6160, 6470, 6608, 6784, 6800, 6992, 7088, 7232,
      7248, 42528, 43216, 43264, 43472, 43504, 43600, 44016, 65296, 66720, 68912, 69734,
      69872, 69942, 70096, 70384, 70736, 70864, 71248, 71360, 71472, 71904, 72016, 72784,
      73040, 73120, 92768, 92864, 93008, 120782, 120792, 120802, 120812, 120822, 123200,
      123632, 125264, 130032]"

definition unicode_decimal :: "nat \<Rightarrow> nat option" where
  "unicode_decimal c =
     (case filter (\<lambda>s. s \<le> c \<and> c < s + 10) decimal_starts of
        [] \<Rightarrow> None
      | s # _ \<Rightarrow> Some (c - s))"

text \<open>
  A string with a character beyond ASCII is first rewritten: white space becomes a blank,
  a decimal digit its ASCII digit, and at any other character from 127 on the rewriting
  stops with a question mark.
\<close>

fun to_ascii_tail :: "pystr \<Rightarrow> pystr" where
  "to_ascii_tail [] = []"
| "to_ascii_tail (c # cs) =
     (if c < 127 then c # to_ascii_tail cs
      else if c \<in> set unicode_spaces then 32 # to_ascii_tail cs
      else (case unicode_decimal c of
              None \<Rightarrow> [63]
            | Some d \<Rightarrow> (48 + d) # to_ascii_tail cs))"

definition to_ascii :: "pystr \<Rightarrow> pystr" where
  "to_ascii s = (if list_all (\<lambda>c. c < 128) s then s else to_ascii_tail s)"

text \<open>Trailing white space is dropped, but never the first character.\<close>

definition strip_trailing :: "pystr \<Rightarrow> pystr" where
  "strip_trailing s =
     (case s of [] \<Rightarrow> [] | c # t \<Rightarrow> c # rev (dropWhile is_space (rev t)))"

text \<open>
  Underscores are removed; each must stand between two digits. \<open>prev\<close> is the
  character before, \<open>0\<close> at the start.
\<close>

fun strip_underscores :: "nat \<Rightarrow> pystr \<Rightarrow> pystr option" where
  "strip_underscores prev [] = (if prev = 95 then None else Some [])"
| "strip_underscores prev (c # cs) =
     (if c = 95 then
        (if is_digit prev then strip_underscores c cs else None)
      else if prev = 95 \<and> \<not> is_digit c then None
      else (case strip_underscores c cs of None \<Rightarrow> None | Some r \<Rightarrow> Some (c # r)))"

definition with_underscores :: "pystr \<Rightarrow> pystr option" where
  "with_underscores s = (if 95 \<in> set s then strip_underscores 0 s else Some s)"

definition digits_val :: "pystr \<Rightarrow> nat" where
  "digits_val ds = foldl (\<lambda>a c. 10 * a + (c - 48)) 0 ds"

text \<open>
  An exponent: \<open>e\<close> or \<open>E\<close>, an optional sign, digits. Without a digit nothing is
  read, and the \<open>e\<close> stays in the rest.
\<close>

definition parse_exponent :: "pystr \<Rightarrow> int \<times> pystr" where
  "parse_exponent s =
     (case s of
        [] \<Rightarrow> (0, s)
      | c # t \<Rightarrow>
          if c = 101 \<or> c = 69 then
            (let neg = (case t of [] \<Rightarrow> False | d # _ \<Rightarrow> d = 45);
                 t' = (case t of [] \<Rightarrow> [] | d # u \<Rightarrow> if d = 43 \<or> d = 45 then u else t);
                 ds = takeWhile is_digit t'
             in if ds = [] then (0, s)
                else (if neg then - int (digits_val ds) else int (digits_val ds),
                      dropWhile is_digit t'))
          else (0, s))"

text \<open>
  The number after the sign: digits, an optional point with digits, at least one digit
  in all, then an optional exponent. The result is the exact value and what is left of the
  string.
\<close>

definition parse_number :: "pystr \<Rightarrow> (rat \<times> pystr) option" where
  "parse_number s =
     (let ip = takeWhile is_digit s;
          r1 = dropWhile is_digit s;
          pt = (case r1 of [] \<Rightarrow> False | c # _ \<Rightarrow> c = 46);
          fp = (if pt then takeWhile is_digit (tl r1) else []);
          r2 = (if pt then dropWhile is_digit (tl r1) else r1)
      in if ip = [] \<and> fp = [] then None
         else
           (let (e, r3) = parse_exponent r2
            in Some (of_nat (digits_val (ip @ fp)) * pow10 (e - int (length fp)), r3)))"

definition lower :: "nat \<Rightarrow> nat" where
  "lower c = (if 65 \<le> c \<and> c \<le> 90 then c + 32 else c)"

definition parse_inf_or_nan :: "bool \<Rightarrow> pystr \<Rightarrow> double option" where
  "parse_inf_or_nan neg body =
     (let b = map lower body
      in if b = lit ''inf'' \<or> b = lit ''infinity'' then Some (if neg then NInf else PInf)
         else if b = lit ''nan'' then Some NaN
         else None)"

definition float_from_string_inner :: "pystr \<Rightarrow> double option" where
  "float_from_string_inner s =
     (let sgn = (case s of [] \<Rightarrow> False | c # _ \<Rightarrow> c = 43 \<or> c = 45);
          neg = (case s of [] \<Rightarrow> False | c # _ \<Rightarrow> c = 45);
          body = (if sgn then tl s else s)
      in case parse_number body of
           None \<Rightarrow> parse_inf_or_nan neg body
         | Some (q, rest) \<Rightarrow>
             if rest = [] then Some (fl (if neg then - q else q)) else None)"

text \<open>\<open>float(v)\<close> for a string: the value, or \<open>None\<close> where Python raises ValueError.\<close>

definition py_float :: "pystr \<Rightarrow> double option" where
  "py_float v =
     (let s = dropWhile is_space (to_ascii v)
      in if s = [] then None
         else (case with_underscores (strip_trailing s) of
                 None \<Rightarrow> None
               | Some s' \<Rightarrow> float_from_string_inner s'))"

section \<open>Transformation\<close>

text \<open>\<open>s.split(sep)\<close> for a separator of one character, and \<open>"".join(parts)\<close>.\<close>

fun str_split :: "nat \<Rightarrow> pystr \<Rightarrow> pystr list" where
  "str_split sep [] = [[]]"
| "str_split sep (c # cs) =
     (if c = sep then [] # str_split sep cs
      else (case str_split sep cs of
              [] \<Rightarrow> [[c]]
            | p # ps \<Rightarrow> (c # p) # ps))"

definition str_join :: "pystr list \<Rightarrow> pystr" where
  "str_join parts = concat parts"

text \<open>
  \<open>DataFrame\<close> objects live in a store and are named by their position in it; a new
  object is appended. \<open>transform\<close> needs this: it assigns into the object it was given.
\<close>

type_synonym heap = "dataframe list"

text \<open>
  \<open>df[key].tolist()\<close>: the values of the column of that name. A missing name raises
  KeyError; a name that several columns carry selects a \<open>DataFrame\<close>, which has no
  \<open>tolist\<close>.
\<close>

definition getitem_tolist :: "dataframe \<Rightarrow> pystr \<Rightarrow> error + pyobj list" where
  "getitem_tolist df key =
     (case filter (\<lambda>c. cname c = key) df of
        [] \<Rightarrow> Inl KeyError
      | [c] \<Rightarrow> Inr (cvalues c)
      | _ \<Rightarrow> Inl AttributeError)"

text \<open>
  \<open>float("".join(x.split(',')))\<close> for one element \<open>x\<close> of the list. A float has no
  \<open>split\<close>; a string that \<open>float\<close> rejects raises ValueError.
\<close>

definition to_float :: "pyobj \<Rightarrow> error + double" where
  "to_float x =
     (case x of
        Flt d \<Rightarrow> Inl AttributeError
      | Str s \<Rightarrow>
          (case py_float (str_join (str_split comma s)) of
             None \<Rightarrow> Inl ValueError
           | Some d \<Rightarrow> Inr d))"

text \<open>A list comprehension \<open>[f(x) for x in xs]\<close>: the first element that raises ends it.\<close>

fun comprehension :: "('a \<Rightarrow> error + 'b) \<Rightarrow> 'a list \<Rightarrow> error + 'b list" where
  "comprehension f [] = Inr []"
| "comprehension f (x # xs) =
     (case f x of
        Inl e \<Rightarrow> Inl e
      | Inr y \<Rightarrow> (case comprehension f xs of Inl e \<Rightarrow> Inl e | Inr ys \<Rightarrow> Inr (y # ys)))"

text \<open>
  \<open>df[key] = values\<close> for a list of floats and an existing column: the column keeps its
  place and name, and holds the floats, with dtype float64.
\<close>

definition setitem :: "dataframe \<Rightarrow> pystr \<Rightarrow> double list \<Rightarrow> dataframe" where
  "setitem df key vals =
     map (\<lambda>c. if cname c = key then c\<lparr>cdtype := Float64, cvalues := map Flt vals\<rparr> else c) df"

text \<open>\<open>df.rename(columns={old: new})\<close>: a new frame.\<close>

definition rename :: "dataframe \<Rightarrow> pystr \<Rightarrow> pystr \<Rightarrow> dataframe" where
  "rename df old new = map (\<lambda>c. if cname c = old then c\<lparr>cname := new\<rparr> else c) df"

text \<open>
  \<open>transform(df)\<close>, where \<open>df\<close> names an object of the store \<open>h\<close>. The result is the
  returned object and the store after the call.
\<close>

definition transform :: "heap \<Rightarrow> nat \<Rightarrow> error + (nat \<times> heap)" where
  "transform h df =
     (case getitem_tolist (h ! df) (lit ''GDP_USD_millions'') of
        Inl e \<Rightarrow> Inl e
      | Inr GDP_list \<Rightarrow>
          (case comprehension to_float GDP_list of
             Inl e \<Rightarrow> Inl e
           | Inr floats \<Rightarrow>
               (let GDP_list' = map (\<lambda>x. np_round (div_by x 1000) 2) floats;
                    h' = h[df := setitem (h ! df) (lit ''GDP_USD_millions'') GDP_list'];
                    renamed = rename (h' ! df) (lit ''GDP_USD_millions'') (lit ''GDP_USD_billions'')
                in Inr (length h', h' @ [renamed]))))"

subsection \<open>What the transformation is compared with\<close>

text \<open>
  The unit conversion in the specification's words: strip the grouping separators, parse
  the remainder as a decimal, divide by the divisor, round to the precision.
\<close>

definition strip_separators :: "pystr \<Rightarrow> pystr" where
  "strip_separators s = filter (\<lambda>c. c \<noteq> comma) s"

definition parse_decimal :: "pystr \<Rightarrow> double" where
  "parse_decimal ds = fl (of_nat (digits_val ds))"

definition convert :: "rat \<Rightarrow> nat \<Rightarrow> pystr \<Rightarrow> double" where
  "convert divisor precision gdp_raw =
     np_round (div_by (parse_decimal (strip_separators gdp_raw)) divisor) precision"

text \<open>A decimal string with grouping separators: digits and commas, at least one digit.\<close>

definition grouped_decimal :: "pystr \<Rightarrow> bool" where
  "grouped_decimal s = (list_all (\<lambda>c. is_digit c \<or> c = comma) s \<and> filter is_digit s \<noteq> [])"

text \<open>
  A decimal string: an optional sign, digits, and an optional fraction of a point and
  digits.
\<close>

definition valid_decimal :: "pystr \<Rightarrow> bool" where
  "valid_decimal s =
     (let body = (case s of [] \<Rightarrow> [] | c # t \<Rightarrow> if c = 43 \<or> c = 45 then t else s);
          ip = takeWhile is_digit body;
          r = dropWhile is_digit body
      in ip \<noteq> [] \<and> (r = [] \<or> (hd r = 46 \<and> tl r \<noteq> [] \<and> list_all is_digit (tl r))))"

text \<open>The converted Dataset as a frame: countries, and values in billions.\<close>

definition dataset_frame :: "(pystr \<times> double) list \<Rightarrow> dataframe" where
  "dataset_frame recs =
     [\<lparr>cname = lit ''Country'', cdtype = Object, cvalues = map (\<lambda>r. Str (fst r)) recs\<rparr>,
      \<lparr>cname = lit ''GDP_USD_billions'', cdtype = Float64,
        cvalues = map (\<lambda>r. Flt (snd r)) recs\<rparr>]"

text \<open>The frame \<open>transform\<close> leaves behind in the object it was given.\<close>

definition overwritten_frame :: "(pystr \<times> double) list \<Rightarrow> dataframe" where
  "overwritten_frame recs =
     [\<lparr>cname = lit ''Country'', cdtype = Object, cvalues = map (\<lambda>r. Str (fst r)) recs\<rparr>,
      \<lparr>cname = lit ''GDP_USD_millions'', cdtype = Float64,
        cvalues = map (\<lambda>r. Flt (snd r)) recs\<rparr>]"

text \<open>A character that \<open>float\<close> neither rewrites, strips nor treats as a separator.\<close>

definition plain_char :: "nat \<Rightarrow> bool" where
  "plain_char c = (c < 128 \<and> \<not> is_space c \<and> c \<noteq> 95)"

text \<open>The records of a raw Dataset whose stripped value \<open>float\<close> accepts, and their values.\<close>

definition accepted :: "pystr \<times> pystr \<Rightarrow> bool" where
  "accepted r = (py_float (strip_separators (snd r)) \<noteq> None)"

definition converted :: "pystr \<times> pystr \<Rightarrow> pystr \<times> double" where
  "converted r =
     (fst r, np_round (div_by (the (py_float (strip_separators (snd r)))) 1000) 2)"

section \<open>Loading\<close>

definition CSV_PATH :: pystr where
  "CSV_PATH = lit ''Countries_by_GDP.csv''"

definition LOG_PATH :: pystr where
  "LOG_PATH = lit ''log_file.text''"

definition DB_NAME :: pystr where
  "DB_NAME = lit ''World_Economies''"

definition TABLE_NAME :: pystr where
  "TABLE_NAME = lit ''Countries_by_GDP''"

subsection \<open>The table store\<close>

text \<open>
  The table store is MySQL, a collaborator outside the notebook. The model keeps of it
  what the four kinds of statement of \<open>load_to_db\<close> do: schemas hold tables, a table has
  typed columns and rows, and a row is the association of the inserted columns with the
  values sent for them. The store assigns the \<open>id\<close> of a row; its value is not kept.
  Conversions of values to the column types are not modelled.
\<close>

datatype sqltype = INT_AUTO_INCREMENT_PRIMARY_KEY | VARCHAR_255 | FLOAT

record table =
  tcolumns :: "(pystr \<times> sqltype) list"
  trows :: "(pystr \<times> pyobj) list list"

type_synonym schema = "(pystr \<times> table) list"

type_synonym database = "(pystr \<times> schema) list"

fun assoc_update :: "'k \<Rightarrow> 'v \<Rightarrow> ('k \<times> 'v) list \<Rightarrow> ('k \<times> 'v) list" where
  "assoc_update k v [] = [(k, v)]"
| "assoc_update k v ((k', v') # kvs) =
     (if k' = k then (k, v) # kvs else (k', v') # assoc_update k v kvs)"

definition table_in :: "database \<Rightarrow> pystr \<Rightarrow> pystr \<Rightarrow> table option" where
  "table_in db s t = (case map_of db s of None \<Rightarrow> None | Some tables \<Rightarrow> map_of tables t)"

text \<open>
  What a statement text says, for the texts \<open>load_to_db\<close> builds. The columns of a
  \<open>CREATE TABLE\<close> are the ones after the \<open>id\<close> column.
\<close>

datatype stmt =
    CREATE_SCHEMA_IF_NOT_EXISTS pystr
  | USE pystr
  | CREATE_TABLE_IF_NOT_EXISTS pystr "(pystr \<times> sqltype) list"
  | INSERT_INTO pystr "pystr list"

text \<open>
  A name that can stand between backticks and mean itself: letters, digits and
  underscores, at most 64 of them. Column names are compared without regard to case.
\<close>

definition identifier_ok :: "pystr \<Rightarrow> bool" where
  "identifier_ok n =
     (n \<noteq> [] \<and> length n \<le> 64
      \<and> list_all (\<lambda>c. is_digit c \<or> (97 \<le> lower c \<and> lower c \<le> 122) \<or> c = 95) n)"

definition col_key :: "pystr \<Rightarrow> pystr" where
  "col_key n = map lower n"

fun names_of :: "stmt \<Rightarrow> pystr list" where
  "names_of (CREATE_SCHEMA_IF_NOT_EXISTS s) = [s]"
| "names_of (USE s) = [s]"
| "names_of (CREATE_TABLE_IF_NOT_EXISTS t cols) = t # map fst cols"
| "names_of (INSERT_INTO t cols) = t # cols"

text \<open>
  A connection: the committed store, the store as this connection sees it, the schema in
  use, and the statements sent so far, each with its parameters. Statements that define
  schemas and tables commit at once; inserted rows are committed by \<open>commit\<close>, and a
  connection that is dropped leaves the committed store.
\<close>

record connection =
  committed :: database
  work :: database
  current :: "pystr option"
  executed :: "(pystr \<times> pyobj list) list"

definition id_column :: "pystr \<times> sqltype" where
  "id_column = (lit ''id'', INT_AUTO_INCREMENT_PRIMARY_KEY)"

fun run_stmt :: "stmt \<Rightarrow> pyobj list \<Rightarrow> connection \<Rightarrow> error + connection" where
  "run_stmt (CREATE_SCHEMA_IF_NOT_EXISTS s) params c =
     (let d = (if map_of (work c) s = None then assoc_update s [] (work c) else work c)
      in Inr (c\<lparr>committed := d, work := d\<rparr>))"
| "run_stmt (USE s) params c =
     (if map_of (work c) s = None then Inl DatabaseError else Inr (c\<lparr>current := Some s\<rparr>))"
| "run_stmt (CREATE_TABLE_IF_NOT_EXISTS t cols) params c =
     (case current c of
        None \<Rightarrow> Inl DatabaseError
      | Some s \<Rightarrow>
          (case map_of (work c) s of
             None \<Rightarrow> Inl DatabaseError
           | Some tables \<Rightarrow>
               if cols = [] \<or> \<not> distinct (map col_key (map fst (id_column # cols)))
               then Inl DatabaseError
               else if map_of tables t \<noteq> None then Inr (c\<lparr>committed := work c\<rparr>)
               else
                 (let d = assoc_update s
                            (assoc_update t \<lparr>tcolumns = id_column # cols, trows = []\<rparr> tables)
                            (work c)
                  in Inr (c\<lparr>committed := d, work := d\<rparr>))))"
| "run_stmt (INSERT_INTO t cols) params c =
     (case current c of
        None \<Rightarrow> Inl DatabaseError
      | Some s \<Rightarrow>
          (case map_of (work c) s of
             None \<Rightarrow> Inl DatabaseError
           | Some tables \<Rightarrow>
               (case map_of tables t of
                  None \<Rightarrow> Inl DatabaseError
                | Some tab \<Rightarrow>
                    if length params \<noteq> length cols
                       \<or> \<not> distinct (map col_key cols)
                       \<or> \<not> set (map col_key cols) \<subseteq> set (map col_key (map fst (tcolumns tab)))
                    then Inl DatabaseError
                    else
                      Inr (c\<lparr>work :=
                             assoc_update s
                               (assoc_update t (tab\<lparr>trows := trows tab @ [zip cols params]\<rparr>) tables)
                               (work c)\<rparr>))))"

text \<open>
  \<open>cursor.execute(text, params)\<close>: the text as the source builds it, beside the
  statement it says. The call is recorded, then the statement runs.
\<close>

definition cursor_execute ::
  "pystr \<Rightarrow> stmt \<Rightarrow> pyobj list \<Rightarrow> connection \<Rightarrow> error option \<times> connection" where
  "cursor_execute text st params c =
     (let c1 = c\<lparr>executed := executed c @ [(text, params)]\<rparr>
      in if \<not> list_all identifier_ok (names_of st) then (Some Unmodelled, c1)
         else (case run_stmt st params c1 of
                 Inl e \<Rightarrow> (Some e, c1)
               | Inr c2 \<Rightarrow> (None, c2)))"

text \<open>One step after another, as long as none raises.\<close>

fun and_then ::
  "error option \<times> connection \<Rightarrow> (connection \<Rightarrow> error option \<times> connection)
     \<Rightarrow> error option \<times> connection" where
  "and_then (None, c) f = f c"
| "and_then (Some e, c) f = (Some e, c)"

subsection \<open>load\_to\_db\<close>

text \<open>\<open>', '.join(parts)\<close>.\<close>

fun join_comma :: "pystr list \<Rightarrow> pystr" where
  "join_comma [] = []"
| "join_comma [p] = p"
| "join_comma (p # q # ps) = p @ lit '', '' @ join_comma (q # ps)"

text \<open>
  The column list of the table:
  \<open>', '.join([f"`{col}` VARCHAR(255)" if df[col].dtype == 'object' else f"`{col}` FLOAT"
  for col in column_names])\<close>, as text and as the typed columns it says.
\<close>

definition columns_sql :: "dataframe \<Rightarrow> pystr" where
  "columns_sql df =
     join_comma (map (\<lambda>c. if cdtype c = Object
                            then lit ''`'' @ cname c @ lit ''` VARCHAR(255)''
                            else lit ''`'' @ cname c @ lit ''` FLOAT'') df)"

definition derive :: "dataframe \<Rightarrow> (pystr \<times> sqltype) list" where
  "derive df = map (\<lambda>c. (cname c, if cdtype c = Object then VARCHAR_255 else FLOAT)) df"

text \<open>
  The insert statement:
  \<open>f"INSERT INTO `{TABLE_NAME}` ({', '.join([f'`{col}`' for col in column_names])})
  VALUES ({placeholders})"\<close> with \<open>placeholders = ', '.join(['%s'] * len(column_names))\<close>.
\<close>

definition DML :: "pystr list \<Rightarrow> pystr" where
  "DML column_names =
     lit ''INSERT INTO `'' @ TABLE_NAME @ lit ''` (''
     @ join_comma (map (\<lambda>col. lit ''`'' @ col @ lit ''`'') column_names)
     @ lit '') VALUES (''
     @ join_comma (replicate (length column_names) (lit ''%s''))
     @ lit '')''"

text \<open>\<open>df.to_records(index=False)\<close>: the rows, each with one value per column.\<close>

definition to_records :: "dataframe \<Rightarrow> pyobj list list" where
  "to_records df = map (\<lambda>i. map (\<lambda>c. cvalues c ! i) df) [0 ..< nrows df]"

text \<open>The loop \<open>for record in data_records: cursor.execute(DML, values)\<close>.\<close>

fun insert_records ::
  "pystr list \<Rightarrow> pyobj list list \<Rightarrow> connection \<Rightarrow> error option \<times> connection" where
  "insert_records column_names [] c = (None, c)"
| "insert_records column_names (values # records) c =
     and_then (cursor_execute (DML column_names) (INSERT_INTO TABLE_NAME column_names) values c)
       (insert_records column_names records)"

text \<open>
  \<open>load_to_db(df)\<close> on the store \<open>db\<close>; \<open>connect\<close> is the outcome of
  \<open>connect_database()\<close>. The result is the exception raised, if any, the store left
  behind and the statements sent. A frame without columns and a frame whose column names
  repeat have no records: \<open>to_records\<close> raises IndexError for the first and
  ValueError for the second, before any statement is sent.
\<close>

record load_result =
  raised :: "error option"
  store :: database
  statements :: "(pystr \<times> pyobj list) list"

definition load_to_db :: "error option \<Rightarrow> dataframe \<Rightarrow> database \<Rightarrow> load_result" where
  "load_to_db connect df db =
     (case connect of
        Some e \<Rightarrow> \<lparr>raised = Some e, store = db, statements = []\<rparr>
      | None \<Rightarrow>
          (let cursor = \<lparr>committed = db, work = db, current = None, executed = []\<rparr>;
               column_names = columns df
           in if column_names = []
              then \<lparr>raised = Some IndexError, store = db, statements = []\<rparr>
              else if \<not> distinct column_names
              then \<lparr>raised = Some ValueError, store = db, statements = []\<rparr>
              else
                (let data_records = to_records df;
                     (e, c) =
                       and_then
                        (and_then
                          (and_then
                            (cursor_execute
                               (lit ''CREATE SCHEMA IF NOT EXISTS `'' @ DB_NAME @ lit ''`'')
                               (CREATE_SCHEMA_IF_NOT_EXISTS DB_NAME) [] cursor)
                            (cursor_execute (lit ''USE `'' @ DB_NAME @ lit ''`'') (USE DB_NAME) []))
                          (cursor_execute
                             (lit ''CREATE TABLE IF NOT EXISTS `'' @ TABLE_NAME
                              @ lit ''` (id INT AUTO_INCREMENT PRIMARY KEY, '' @ columns_sql df
                              @ lit '')'')
                             (CREATE_TABLE_IF_NOT_EXISTS TABLE_NAME (derive df)) []))
                        (insert_records column_names data_records)
                 in case e of
                      Some x \<Rightarrow> \<lparr>raised = Some x, store = committed c, statements = executed c\<rparr>
                    | None \<Rightarrow> \<lparr>raised = None, store = work c, statements = executed c\<rparr>)))"

subsection \<open>What the load is compared with\<close>

text \<open>The row inserted for a record of the Dataset.\<close>

definition record_row :: "pystr \<times> double \<Rightarrow> (pystr \<times> pyobj) list" where
  "record_row r = [(lit ''Country'', Str (fst r)), (lit ''GDP_USD_billions'', Flt (snd r))]"

text \<open>The statements \<open>load_to_db\<close> sends before the rows.\<close>

definition ddl_statements :: "(pystr \<times> pyobj list) list" where
  "ddl_statements =
     [(lit ''CREATE SCHEMA IF NOT EXISTS `World_Economies`'', []),
      (lit ''USE `World_Economies`'', []),
      (lit ''CREATE TABLE IF NOT EXISTS `Countries_by_GDP` (id INT AUTO_INCREMENT PRIMARY KEY, `Country` VARCHAR(255), `GDP_USD_billions` FLOAT)'', [])]"

definition insert_text :: pystr where
  "insert_text = lit ''INSERT INTO `Countries_by_GDP` (`Country`, `GDP_USD_billions`) VALUES (%s, %s)''"

text \<open>
  The table as a load finds it: the table of the store, or the empty table that
  \<open>CREATE TABLE IF NOT EXISTS\<close> makes for a Dataset when there is none.
\<close>

definition new_table :: table where
  "new_table = \<lparr>tcolumns = id_column # [(lit ''Country'', VARCHAR_255), (lit ''GDP_USD_billions'', FLOAT)],
                 trows = []\<rparr>"

definition table_before :: "database \<Rightarrow> table" where
  "table_before db = (case table_in db DB_NAME TABLE_NAME of None \<Rightarrow> new_table | Some tab \<Rightarrow> tab)"


section \<open>The notebook\<close>

text \<open>
  The collaborators outside the notebook, as far as its cells depend on them: the page
  behind a URL as fetched and parsed (or the error of the fetch), whether writing the CSV
  file raises, whether connecting to MySQL raises, whether \<open>pd.read_sql\<close> raises for a
  query on a store, and the text \<open>str(e)\<close> of an exception.
\<close>

record world =
  w_web :: "pystr \<Rightarrow> error + node"
  w_to_csv :: "error option"
  w_connect :: "error option"
  w_read_sql :: "pystr \<Rightarrow> database \<Rightarrow> error option"
  w_str :: "error \<Rightarrow> pystr"

text \<open>
  The state the cells share: the \<open>DataFrame\<close> objects, the global variables \<open>df\<close>
  and \<open>quey_statement\<close> (\<open>None\<close> while unassigned), the messages written to the log
  file (each line of the file is a time stamp, a comma and the message), the frame last
  written to \<open>CSV_PATH\<close>, and the table store.
\<close>

record state =
  s_heap :: heap
  s_df :: "nat option"
  s_quey_statement :: "pystr option"
  s_log :: "pystr list"
  s_csv :: "dataframe option"
  s_db :: database

type_synonym outcome = "error option \<times> state"

definition log_progress :: "pystr \<Rightarrow> state \<Rightarrow> state" where
  "log_progress message s = s\<lparr>s_log := s_log s @ [message]\<rparr>"

text \<open>
  \<open>try: body except Exception as e: handler\<close>. Every exception of the model is an
  \<open>Exception\<close>, so the handler runs for each; what the body changed before it raised
  stays changed.
\<close>

definition try_except :: "(state \<Rightarrow> outcome) \<Rightarrow> (error \<Rightarrow> state \<Rightarrow> outcome) \<Rightarrow> state \<Rightarrow> outcome" where
  "try_except body handler s =
     (case body s of
        (None, s') \<Rightarrow> (None, s')
      | (Some e, s') \<Rightarrow> handler e s')"

text \<open>
  With \<open>finally: final\<close>: \<open>final\<close> runs last in every case. An exception it raises
  is the one that leaves the statement; otherwise the one still pending does.
\<close>

definition try_except_finally ::
  "(state \<Rightarrow> outcome) \<Rightarrow> (error \<Rightarrow> state \<Rightarrow> outcome) \<Rightarrow> (state \<Rightarrow> outcome) \<Rightarrow> state \<Rightarrow> outcome" where
  "try_except_finally body handler final s =
     (case try_except body handler s of
        (pending, s') \<Rightarrow>
          (case final s' of
             (Some e, s'') \<Rightarrow> (Some e, s'')
           | (None, s'') \<Rightarrow> (pending, s'')))"

text \<open>Reading the global \<open>df\<close>: a NameError while it is unassigned.\<close>

definition name_df :: "state \<Rightarrow> error + nat" where
  "name_df s = (case s_df s of None \<Rightarrow> Inl NameError | Some r \<Rightarrow> Inr r)"

subsection \<open>The extract cell\<close>

definition body_extract :: "world \<Rightarrow> state \<Rightarrow> outcome" where
  "body_extract w s =
     (case extract_data (w_web w) URL TABLE_ATTRIBS of
        Inl e \<Rightarrow> (Some e, s)
      | Inr d \<Rightarrow>
          (None, log_progress (lit ''Data extracted successfuly'')
                   (s\<lparr>s_heap := s_heap s @ [d], s_df := Some (length (s_heap s))\<rparr>)))"

definition cell_extract :: "world \<Rightarrow> state \<Rightarrow> outcome" where
  "cell_extract w =
     try_except (body_extract w)
       (\<lambda>e s. (None, log_progress (lit ''Error while extracting data: '' @ w_str w e) s))"

subsection \<open>The transform cell\<close>

definition body_transform :: "state \<Rightarrow> outcome" where
  "body_transform s =
     (case name_df s of
        Inl e \<Rightarrow> (Some e, s)
      | Inr r \<Rightarrow>
          (case transform (s_heap s) r of
             Inl e \<Rightarrow> (Some e, s)
           | Inr (r', h') \<Rightarrow>
               (None, log_progress (lit ''Data transformed successfuly'')
                        (s\<lparr>s_heap := h', s_df := Some r'\<rparr>))))"

definition cell_transform :: "world \<Rightarrow> state \<Rightarrow> outcome" where
  "cell_transform w =
     try_except body_transform
       (\<lambda>e s. (None, log_progress (lit ''Error while transforming data: '' @ w_str w e) s))"

subsection \<open>The CSV cell\<close>

text \<open>\<open>load_to_csv(df)\<close>: \<open>df.to_csv(CSV_PATH)\<close> replaces the file, unless it raises.\<close>

definition load_to_csv :: "error option \<Rightarrow> dataframe \<Rightarrow> dataframe option \<Rightarrow> error + dataframe option" where
  "load_to_csv to_csv d file = (case to_csv of Some e \<Rightarrow> Inl e | None \<Rightarrow> Inr (Some d))"

definition body_load_csv :: "world \<Rightarrow> state \<Rightarrow> outcome" where
  "body_load_csv w s =
     (case name_df s of
        Inl e \<Rightarrow> (Some e, s)
      | Inr r \<Rightarrow>
          (case load_to_csv (w_to_csv w) (s_heap s ! r) (s_csv s) of
             Inl e \<Rightarrow> (Some e, s)
           | Inr file \<Rightarrow>
               (None, log_progress (lit ''Data loaded to CSV successfuly'') (s\<lparr>s_csv := file\<rparr>))))"

definition cell_load_csv :: "world \<Rightarrow> state \<Rightarrow> outcome" where
  "cell_load_csv w =
     try_except (body_load_csv w)
       (\<lambda>e s. (None, log_progress (lit ''Error while loading data to CSV: '' @ w_str w e) s))"

subsection \<open>The connection cell\<close>

definition body_connect :: "world \<Rightarrow> state \<Rightarrow> outcome" where
  "body_connect w s =
     (case w_connect w of
        Some e \<Rightarrow> (Some e, s)
      | None \<Rightarrow> (None, log_progress (lit ''Database successfuly connected'') s))"

definition cell_connect :: "world \<Rightarrow> state \<Rightarrow> outcome" where
  "cell_connect w =
     try_except (body_connect w)
       (\<lambda>e s. (None, log_progress (lit ''Error while connecting to DB: '' @ w_str w e) s))"

subsection \<open>The database cell\<close>

text \<open>What \<open>load_to_db\<close> committed before it raised stays in the store.\<close>

definition body_load_db :: "world \<Rightarrow> state \<Rightarrow> outcome" where
  "body_load_db w s =
     (case name_df s of
        Inl e \<Rightarrow> (Some e, s)
      | Inr r \<Rightarrow>
          (let res = load_to_db (w_connect w) (s_heap s ! r) (s_db s);
               s' = s\<lparr>s_db := store res\<rparr>
           in case raised res of
                Some e \<Rightarrow> (Some e, s')
              | None \<Rightarrow> (None, log_progress (lit ''Data loaded to DB successfuly'') s')))"

definition cell_load_db :: "world \<Rightarrow> state \<Rightarrow> outcome" where
  "cell_load_db w =
     try_except (body_load_db w)
       (\<lambda>e s. (None, log_progress (lit ''Error while loading data to DB: '' @ w_str w e) s))"

subsection \<open>The query cell\<close>

text \<open>
  \<open>run_query(query_statement)\<close>: connect, \<open>Use\<close> the schema, read and print the result
  of the query, return the statement. Each of the three can raise.
\<close>

definition run_query ::
  "error option \<Rightarrow> (pystr \<Rightarrow> database \<Rightarrow> error option) \<Rightarrow> pystr \<Rightarrow> database \<Rightarrow> error + pystr" where
  "run_query connect read_sql query_statement d =
     (case connect of
        Some e \<Rightarrow> Inl e
      | None \<Rightarrow>
          (case cursor_execute (lit ''Use '' @ DB_NAME) (USE DB_NAME) []
                  \<lparr>committed = d, work = d, current = None, executed = []\<rparr> of
             (Some e, c) \<Rightarrow> Inl e
           | (None, c) \<Rightarrow>
               (case read_sql query_statement d of
                  Some e \<Rightarrow> Inl e
                | None \<Rightarrow> Inr query_statement)))"

definition body_query :: "world \<Rightarrow> state \<Rightarrow> outcome" where
  "body_query w s =
     (case run_query (w_connect w) (w_read_sql w) (lit ''SELECT * FROM Countries_by_GDP'') (s_db s) of
        Inl e \<Rightarrow> (Some e, s)
      | Inr q \<Rightarrow> (None, s\<lparr>s_quey_statement := Some q\<rparr>))"

text \<open>
  The \<open>finally\<close> block, \<open>log_progress(f"Query made: {quey_statement}")\<close>: a NameError
  while \<open>quey_statement\<close> is unassigned.
\<close>

definition final_query :: "state \<Rightarrow> outcome" where
  "final_query s =
     (case s_quey_statement s of
        None \<Rightarrow> (Some NameError, s)
      | Some q \<Rightarrow> (None, log_progress (lit ''Query made: '' @ q) s))"

definition cell_query :: "world \<Rightarrow> state \<Rightarrow> outcome" where
  "cell_query w =
     try_except_finally (body_query w)
       (\<lambda>e s. (None, log_progress (lit ''Error while querying data: '' @ w_str w e) s))
       final_query"

subsection \<open>Running the cells\<close>

text \<open>The cells run in order; a cell that raises ends the run.\<close>

fun run_cells :: "(state \<Rightarrow> outcome) list \<Rightarrow> state \<Rightarrow> outcome" where
  "run_cells [] s = (None, s)"
| "run_cells (cell # cells) s =
     (case cell s of
        (Some e, s') \<Rightarrow> (Some e, s')
      | (None, s') \<Rightarrow> run_cells cells s')"

definition pipeline :: "world \<Rightarrow> (state \<Rightarrow> outcome) list" where
  "pipeline w = [cell_extract w, cell_transform w, cell_load_csv w, cell_connect w, cell_load_db w]"

text \<open>A fresh kernel: no object, no variable assigned, nothing logged.\<close>

definition fresh :: "database \<Rightarrow> state" where
  "fresh d = \<lparr>s_heap = [], s_df = None, s_quey_statement = None, s_log = [], s_csv = None, s_db = d\<rparr>"

text \<open>A world in which nothing can be reached: every collaborator raises.\<close>

definition offline :: world where
  "offline = \<lparr>w_web = (\<lambda>u. Inl (ExternalError (lit ''unreachable''))),
              w_to_csv = Some (ExternalError (lit ''read-only'')),
              w_connect = Some DatabaseError,
              w_read_sql = (\<lambda>q d. Some DatabaseError),
              w_str = (\<lambda>e. case e of ExternalError m \<Rightarrow> m | _ \<Rightarrow> lit ''error'')\<rparr>"

text \<open>A world in which the page is \<open>soup3\<close> and nothing raises.\<close>

definition online :: world where
  "online = \<lparr>w_web = (\<lambda>u. Inr soup3),
             w_to_csv = None,
             w_connect = None,
             w_read_sql = (\<lambda>q d. None),
             w_str = (\<lambda>e. lit ''error'')\<rparr>"

section \<open>Properties of the extraction\<close>

lemmas example_defs =
  lit_def em_dash_def td_of_def link_def txt_node_def row_A_def row_B_def row_C_def
  row_note_def header_row_def table_of_def soup3_def soup2_def soup_placeholders_def
  row_E_def soup_short_def

lemma descendants_list_append:
  "descendants_list (xs @ ys) = descendants_list xs @ descendants_list ys"
  by (induction xs) simp_all

text \<open>
  Document order: the matches among the children of a \<open>Tag\<close> come child by child, each
  child before the matches below it.
\<close>

lemma find_all_Tag:
  "find_all name (Tag n cs) =
     concat (map (\<lambda>c. (if is_tag name c then [c] else []) @ find_all name c) cs)"
  by (induction cs) (simp_all add: find_all_def)

lemma frame_of_Nil: "DataFrame_columns TABLE_ATTRIBS = frame_of []"
  by (simp add: DataFrame_columns_def TABLE_ATTRIBS_def frame_of_def)

lemma concat_frame_of:
  "pd_concat (frame_of acc)
     [\<lparr>cname = lit ''Country'', cdtype = Object, cvalues = [Str c]\<rparr>,
      \<lparr>cname = lit ''GDP_USD_millions'', cdtype = Object, cvalues = [Str g]\<rparr>]
   = Inr (frame_of (acc @ [(c, g)]))"
  by (simp add: pd_concat_def frame_of_def columns_def cell_of_def lit_def)

lemma first_string_Some:
  "first_string cs = Some s \<Longrightarrow> \<exists>rest. cs = NavigableString s # rest"
  by (cases cs rule: first_string.cases) auto

lemma extract_row_included:
  assumes "row_readable row" "included row"
  shows "\<exists>c g. record_of row = Some (c, g) \<and>
     extract_rows (frame_of acc) (row # rows) = extract_rows (frame_of (acc @ [(c, g)])) rows"
proof -
  let ?col = "find_all (lit ''td'') row"
  from assms have ne: "?col \<noteq> []" and a: "find_tag (lit ''a'') (?col ! 0) \<noteq> None"
    and nd: "\<not> str_in_tag em_dash (?col ! 2)"
    by (auto simp: included_def Let_def)
  with assms(1) have len: "3 \<le> length ?col" and r: "record_of row \<noteq> None"
    by (auto simp: row_readable_def Let_def)
  from r obtain c g where cg: "record_of row = Some (c, g)" by auto
  from a obtain an where an: "find_tag (lit ''a'') (?col ! 0) = Some an" by auto
  from cg an have fc: "first_string (contents an) = Some c"
    and fg: "first_string (contents (?col ! 2)) = Some g"
    by (auto simp: record_of_def Let_def split: option.splits)
  from first_string_Some[OF fc] obtain r1 where c1: "contents an = NavigableString c # r1"
    by auto
  from first_string_Some[OF fg] obtain r2 where c2: "contents (?col ! 2) = NavigableString g # r2"
    by auto
  have it: "inclusion_test ?col = Inr True"
    using an len nd by (simp add: inclusion_test_def)
  have dd: "data_dict ?col =
      Inr [(lit ''Country'', NavigableString c), (lit ''GDP_USD_millions'', NavigableString g)]"
    using an c1 c2 by (simp add: data_dict_def first_def)
  have "extract_rows (frame_of acc) (row # rows) = extract_rows (frame_of (acc @ [(c, g)])) rows"
    using ne it dd by (simp add: Let_def concat_frame_of)
  with cg show ?thesis by blast
qed

lemma extract_row_dropped:
  assumes "row_dropped row"
  shows "extract_rows df (row # rows) = extract_rows df rows"
  using assms by (auto simp: row_dropped_def Let_def)

lemma readable_not_included_dropped:
  assumes "row_readable row" "\<not> included row"
  shows "row_dropped row"
proof -
  let ?col = "find_all (lit ''td'') row"
  show ?thesis
  proof (cases "?col = []")
    case True
    then show ?thesis by (simp add: row_dropped_def)
  next
    case False
    then have l: "1 \<le> length ?col" by (cases ?col) auto
    show ?thesis
    proof (cases "find_tag (lit ''a'') (?col ! 0) = None")
      case True
      then show ?thesis by (simp add: row_dropped_def inclusion_test_def)
    next
      case nn: False
      with assms False l have "3 \<le> length ?col" "str_in_tag em_dash (?col ! 2)"
        by (auto simp: row_readable_def included_def Let_def)
      with nn show ?thesis by (simp add: row_dropped_def inclusion_test_def)
    qed
  qed
qed

lemma extract_rows_acc:
  "\<forall>row \<in> set rows. row_readable row \<Longrightarrow>
   \<exists>recs. extract_rows (frame_of acc) rows = Inr (frame_of (acc @ recs))
         \<and> map record_of (filter included rows) = map Some recs"
proof (induction rows arbitrary: acc)
  case Nil
  then show ?case by simp
next
  case (Cons row rows)
  then have rr: "row_readable row" and rest: "\<forall>r \<in> set rows. row_readable r" by auto
  show ?case
  proof (cases "included row")
    case True
    from extract_row_included[OF rr True, of acc rows] obtain c g where
      cg: "record_of row = Some (c, g)"
      and st: "extract_rows (frame_of acc) (row # rows)
               = extract_rows (frame_of (acc @ [(c, g)])) rows"
      by blast
    from Cons.IH[OF rest, of "acc @ [(c, g)]"] obtain recs where
      "extract_rows (frame_of (acc @ [(c, g)])) rows = Inr (frame_of ((acc @ [(c, g)]) @ recs))"
      "map record_of (filter included rows) = map Some recs"
      by blast
    with st True cg have
      "extract_rows (frame_of acc) (row # rows) = Inr (frame_of (acc @ ((c, g) # recs)))
       \<and> map record_of (filter included (row # rows)) = map Some ((c, g) # recs)"
      by simp
    then show ?thesis by blast
  next
    case False
    from Cons.IH[OF rest, of acc] obtain recs where
      "extract_rows (frame_of acc) rows = Inr (frame_of (acc @ recs))"
      "map record_of (filter included rows) = map Some recs"
      by blast
    with extract_row_dropped[OF readable_not_included_dropped[OF rr False], of "frame_of acc" rows]
      False
    have "extract_rows (frame_of acc) (row # rows) = Inr (frame_of (acc @ recs))
       \<and> map record_of (filter included (row # rows)) = map Some recs"
      by simp
    then show ?thesis by blast
  qed
qed


lemma example_rows_readable:
  "row_readable row_A" "row_readable row_B" "row_readable row_C" "row_readable header_row"
  by (simp_all add: row_readable_def record_of_def find_all_def find_tag_def str_in_tag_def
      example_defs)

lemma example_rows_included:
  "included row_A" "\<not> included row_B" "\<not> included row_C" "\<not> included header_row"
  by (simp_all add: included_def find_all_def find_tag_def str_in_tag_def example_defs)

lemma example_rows_dropped:
  "row_dropped row_B" "row_dropped row_C" "row_dropped header_row"
  by (simp_all add: row_dropped_def inclusion_test_def find_all_def find_tag_def str_in_tag_def
      example_defs)

lemma record_of_row_A: "record_of row_A = Some (lit ''A'', lit ''1,000'')"
  by (simp add: record_of_def find_all_def find_tag_def example_defs)

lemma find_all_tbody_soup3:
  "find_all (lit ''tbody'') soup3 =
     [Tag (lit ''tbody'') [row_B], Tag (lit ''tbody'') [row_C],
      Tag (lit ''tbody'') [header_row, row_A, row_B, row_C]]"
  by (simp add: find_all_def example_defs)

lemma find_all_tr_third:
  "find_all (lit ''tr'') (Tag (lit ''tbody'') [header_row, row_A, row_B, row_C])
     = [header_row, row_A, row_B, row_C]"
  by (simp add: find_all_def example_defs)

lemma find_all_tbody_soup2: "length (find_all (lit ''tbody'') soup2) = 2"
  by (simp add: find_all_def example_defs)



text \<open>
  C1, as amended. For rows on which the loop body neither raises nor hands pandas a
  \<open>Tag\<close>, the extractor returns the frame of exactly the rows that pass the loop's test,
  one record each and in input order: a row passes iff it has at least one cell, cell 0
  contains a hyperlink element, and no direct child of cell 2 is the string of one em
  dash; \<open>country\<close> is the first child of the first hyperlink in cell 0 and \<open>gdp_raw\<close>
  the first child of cell 2.
\<close>

theorem extract_rows_filter:
  assumes "\<forall>row \<in> set rows. row_readable row"
  shows "\<exists>recs. extract_rows (DataFrame_columns TABLE_ATTRIBS) rows = Inr (frame_of recs)
           \<and> map record_of (filter included rows) = map Some recs"
  using extract_rows_acc[OF assms, of "[]"] by (simp add: frame_of_Nil)

theorem extract_rows_filter_witness:
  "extract_rows (DataFrame_columns TABLE_ATTRIBS) [row_A, row_B, row_C]
     = Inr (frame_of [(lit ''A'', lit ''1,000'')])"
proof -
  have h: "\<forall>row \<in> set [row_A, row_B, row_C]. row_readable row"
    by (simp add: example_rows_readable)
  from extract_rows_filter[OF h] obtain recs where
    e: "extract_rows (DataFrame_columns TABLE_ATTRIBS) [row_A, row_B, row_C] = Inr (frame_of recs)"
    and m: "map record_of (filter included [row_A, row_B, row_C]) = map Some recs"
    by blast
  from m have "map Some recs = [Some (lit ''A'', lit ''1,000'')]"
    by (simp add: example_rows_included record_of_row_A)
  then have "recs = [(lit ''A'', lit ''1,000'')]" by auto
  with e show ?thesis by simp
qed

text \<open>
  C1, as stated, fails: the row \<open>row_note\<close> has three cells, a hyperlink in cell 0 and
  the textual content \<open>\<emdash>[n 1]\<close> in cell 2, which is not the placeholder, yet the
  extractor drops it, because the em dash is a direct child of the cell.
\<close>

theorem extract_rows_filter_counterexample:
  "claimed_included row_note
   \<and> extract_rows (DataFrame_columns TABLE_ATTRIBS) [row_note]
       = Inr (DataFrame_columns TABLE_ATTRIBS)"
  by (simp add: claimed_included_def find_all_def find_tag_def inclusion_test_def
      str_in_tag_def Let_def example_defs)

text \<open>
  C3. The data table is the third element of \<open>soup.find_all('tbody')\<close>, the table
  bodies of the whole document in document order, and the rows handed to the loop are all
  the \<open>tr\<close> elements below it, in document order. With fewer than three table bodies
  the extraction fails (Python's IndexError, the specification's ParseError) and returns no
  frame.
\<close>

theorem third_table_body:
  assumes "web url = Inr soup"
  shows "extract_data web url table_attribs =
     (if length (filter (is_tag (lit ''tbody'')) (descendants soup)) < 3 then Inl IndexError
      else extract_rows (DataFrame_columns table_attribs)
             (filter (is_tag (lit ''tr''))
                (descendants (filter (is_tag (lit ''tbody'')) (descendants soup) ! 2))))"
  using assms by (simp add: extract_data_def table_rows_def find_all_def Let_def)

theorem third_table_body_witness:
  "extract_data (\<lambda>u. Inr soup3) URL TABLE_ATTRIBS = Inr (frame_of [(lit ''A'', lit ''1,000'')])
   \<and> extract_data (\<lambda>u. Inr soup2) URL TABLE_ATTRIBS = Inl IndexError"
proof -
  have l3: "length (filter (is_tag (lit ''tbody'')) (descendants soup3)) = 3"
    using find_all_tbody_soup3 by (simp add: find_all_def)
  have r3: "filter (is_tag (lit ''tr''))
      (descendants (filter (is_tag (lit ''tbody'')) (descendants soup3) ! 2))
      = [header_row, row_A, row_B, row_C]"
    using find_all_tbody_soup3 find_all_tr_third by (simp add: find_all_def)
  have a: "extract_data (\<lambda>u. Inr soup3) URL TABLE_ATTRIBS =
      extract_rows (DataFrame_columns TABLE_ATTRIBS) [header_row, row_A, row_B, row_C]"
    using third_table_body[of "\<lambda>u. Inr soup3" URL soup3 TABLE_ATTRIBS, OF refl]
    unfolding l3 r3 by simp
  have "extract_rows (frame_of []) [header_row, row_A, row_B, row_C]
      = extract_rows (frame_of []) [row_A, row_B, row_C]"
    by (rule extract_row_dropped) (rule example_rows_dropped)
  also have "\<dots> = Inr (frame_of [(lit ''A'', lit ''1,000'')])"
    using extract_rows_acc[of "[row_A, row_B, row_C]" "[]"]
    by (auto simp: example_rows_readable example_rows_included record_of_row_A)
  finally have b: "extract_data (\<lambda>u. Inr soup3) URL TABLE_ATTRIBS
      = Inr (frame_of [(lit ''A'', lit ''1,000'')])"
    using a by (simp add: frame_of_Nil)
  have l2: "length (filter (is_tag (lit ''tbody'')) (descendants soup2)) = 2"
    using find_all_tbody_soup2 by (simp add: find_all_def)
  have c: "extract_data (\<lambda>u. Inr soup2) URL TABLE_ATTRIBS = Inl IndexError"
    using third_table_body[of "\<lambda>u. Inr soup2" URL soup2 TABLE_ATTRIBS, OF refl]
    unfolding l2 by simp
  from b c show ?thesis by simp
qed




section \<open>Properties of the transformation\<close>

subsection \<open>Splitting, joining and parsing\<close>

lemma str_split_not_Nil: "str_split sep s \<noteq> []"
  by (induction s) (auto split: list.splits)

lemma str_join_split: "str_join (str_split sep s) = filter (\<lambda>c. c \<noteq> sep) s"
proof (induction s)
  case Nil
  then show ?case by (simp add: str_join_def)
next
  case (Cons c cs)
  obtain p ps where ps: "str_split sep cs = p # ps"
    using str_split_not_Nil[of sep cs] by (cases "str_split sep cs") auto
  with Cons show ?case by (simp add: str_join_def)
qed

lemma dropWhile_none: "list_all (\<lambda>c. \<not> P c) xs \<Longrightarrow> dropWhile P xs = xs"
  by (cases xs) auto

lemma py_float_plain:
  assumes "s \<noteq> []" "list_all plain_char s"
  shows "py_float s = float_from_string_inner s"
proof -
  from assms(2) have a: "list_all (\<lambda>c. c < 128) s" and b: "list_all (\<lambda>c. \<not> is_space c) s"
    and c: "95 \<notin> set s"
    by (auto simp: plain_char_def list_all_iff)
  from a have 1: "to_ascii s = s" by (simp add: to_ascii_def)
  from b have 2: "dropWhile is_space s = s" by (rule dropWhile_none)
  obtain x t where s: "s = x # t" using assms(1) by (cases s) auto
  from b s have "list_all (\<lambda>c. \<not> is_space c) (rev t)" by (simp add: list_all_iff)
  then have "dropWhile is_space (rev t) = rev t" by (rule dropWhile_none)
  then have 3: "strip_trailing s = s" by (simp add: strip_trailing_def s)
  from c have 4: "with_underscores s = Some s" by (simp add: with_underscores_def)
  show ?thesis using assms(1) by (simp add: py_float_def 1 2 3 4)
qed

lemma is_digit_plain: "is_digit c \<Longrightarrow> plain_char c"
  by (auto simp: is_digit_def plain_char_def is_space_def)

lemma takeWhile_all: "list_all P xs \<Longrightarrow> takeWhile P xs = xs"
  by (induction xs) auto

lemma dropWhile_all: "list_all P xs \<Longrightarrow> dropWhile P xs = []"
  by (induction xs) auto

lemma parse_number_digits:
  assumes "ds \<noteq> []" "list_all is_digit ds"
  shows "parse_number ds = Some (of_nat (digits_val ds), [])"
  using assms
  by (simp add: parse_number_def takeWhile_all dropWhile_all parse_exponent_def pow10_def)

lemma py_float_digits:
  assumes "ds \<noteq> []" "list_all is_digit ds"
  shows "py_float ds = Some (fl (of_nat (digits_val ds)))"
proof -
  from assms(2) have "list_all plain_char ds"
    by (auto simp: list_all_iff is_digit_plain)
  then have "py_float ds = float_from_string_inner ds" using assms(1) by (rule py_float_plain[rotated])
  moreover obtain x t where s: "ds = x # t" using assms(1) by (cases ds) auto
  moreover from s assms(2) have "x \<noteq> 43" "x \<noteq> 45" by (auto simp: is_digit_def)
  ultimately show ?thesis
    using parse_number_digits[OF assms] by (simp add: float_from_string_inner_def)
qed

lemma strip_grouped:
  assumes "grouped_decimal s"
  shows "strip_separators s \<noteq> []" "list_all is_digit (strip_separators s)"
proof -
  have c: "\<not> is_digit comma" by (simp add: is_digit_def comma_def)
  from assms have "filter is_digit s \<noteq> []" by (simp add: grouped_decimal_def)
  then obtain d where "d \<in> set s" "is_digit d" by (auto simp: filter_empty_conv)
  with c have "d \<in> set (strip_separators s)" by (auto simp: strip_separators_def)
  then show "strip_separators s \<noteq> []" by auto
  from assms show "list_all is_digit (strip_separators s)"
    by (auto simp: grouped_decimal_def strip_separators_def list_all_iff)
qed

lemma to_float_grouped:
  assumes "grouped_decimal s"
  shows "to_float (Str s) = Inr (parse_decimal (strip_separators s))"
  using py_float_digits[OF strip_grouped[OF assms]]
  by (simp add: to_float_def str_join_split strip_separators_def parse_decimal_def)

subsection \<open>The transformation of a raw Dataset\<close>

lemma getitem_frame_of:
  "getitem_tolist (frame_of recs) (lit ''GDP_USD_millions'') = Inr (map (\<lambda>r. Str (snd r)) recs)"
  by (simp add: getitem_tolist_def frame_of_def lit_def)

lemma to_float_Str:
  "to_float (Str (snd r)) =
     (if accepted r then Inr (the (py_float (strip_separators (snd r)))) else Inl ValueError)"
  by (auto simp: to_float_def accepted_def str_join_split strip_separators_def)

lemma comprehension_to_float:
  "comprehension to_float (map (\<lambda>r. Str (snd r)) recs) =
     (if list_all accepted recs
      then Inr (map (\<lambda>r. the (py_float (strip_separators (snd r)))) recs)
      else Inl ValueError)"
  by (induction recs) (simp_all add: to_float_Str)

lemma setitem_frame_of:
  "setitem (frame_of recs) (lit ''GDP_USD_millions'') (map f recs)
     = overwritten_frame (map (\<lambda>r. (fst r, f r)) recs)"
  by (simp add: setitem_def frame_of_def overwritten_frame_def lit_def comp_def)

lemma rename_overwritten:
  "rename (overwritten_frame recs) (lit ''GDP_USD_millions'') (lit ''GDP_USD_billions'')
     = dataset_frame recs"
  by (simp add: rename_def overwritten_frame_def dataset_frame_def lit_def)

lemma transform_frame_of:
  assumes "df < length h" "h ! df = frame_of recs"
  shows "transform h df =
     (if list_all accepted recs
      then Inr (length h, h[df := overwritten_frame (map converted recs)]
                  @ [dataset_frame (map converted recs)])
      else Inl ValueError)"
proof -
  have c: "map (\<lambda>x. np_round (div_by x 1000) 2)
             (map (\<lambda>r. the (py_float (strip_separators (snd r)))) recs)
           = map (\<lambda>r. np_round (div_by (the (py_float (strip_separators (snd r)))) 1000) 2) recs"
    by simp
  have s: "setitem (frame_of recs) (lit ''GDP_USD_millions'')
       (map (\<lambda>r. np_round (div_by (the (py_float (strip_separators (snd r)))) 1000) 2) recs)
       = overwritten_frame (map converted recs)"
    unfolding setitem_frame_of converted_def ..
  show ?thesis
    using assms
    by (simp add: transform_def getitem_frame_of comprehension_to_float Let_def c s
        rename_overwritten nth_append del: map_map)
qed

lemma grouped_accepted:
  assumes "grouped_decimal (snd r)"
  shows "accepted r" "converted r = (fst r, convert 1000 2 (snd r))"
proof -
  have "py_float (strip_separators (snd r)) = Some (parse_decimal (strip_separators (snd r)))"
    using py_float_digits[OF strip_grouped[OF assms]] by (simp add: parse_decimal_def)
  then show "accepted r" "converted r = (fst r, convert 1000 2 (snd r))"
    by (simp_all add: accepted_def converted_def convert_def)
qed

subsection \<open>Binary64 values of the examples\<close>

lemma floor_rat_numeral: "\<lfloor>(numeral a :: rat) / numeral b\<rfloor> = numeral a div numeral b"
  using floor_divide_of_int_eq[of "numeral a" "numeral b", where ?'a = rat] by simp

lemma ceiling_rat_numeral:
  "\<lceil>(numeral a :: rat) / numeral b\<rceil> = - (- numeral a div numeral b)"
  using floor_divide_of_int_eq[of "- numeral a" "numeral b", where ?'a = rat]
  by (simp add: ceiling_def)

lemmas fl_arith = bitlen.simps pow2_def round_half_even_def floor_rat_numeral ceiling_rat_numeral

lemma fl_1: "fl 1 = Finite 1"
  unfolding fl_def ilog2_def Let_def by (simp add: fl_arith)

lemma fl_100: "fl 100 = Finite 100"
  unfolding fl_def ilog2_def Let_def by (simp add: fl_arith)

lemma fl_1000: "fl 1000 = Finite 1000"
  unfolding fl_def ilog2_def Let_def by (simp add: fl_arith)

lemma fl_26854599: "fl 26854599 = Finite 26854599"
  unfolding fl_def ilog2_def Let_def by (simp add: fl_arith)

lemma fl_us_div: "fl (26854599 / 1000) = Finite (7381735964940435 / 274877906944)"
  unfolding fl_def ilog2_def Let_def by (simp add: fl_arith)

lemma fl_us_mul:
  "fl (184543399123510875 / 68719476736) = Finite (5766981222609715 / 2147483648)"
  unfolding fl_def ilog2_def Let_def by (simp add: fl_arith)

lemma rint_us: "round_half_even (5766981222609715 / 2147483648) = 2685460"
  by (simp add: fl_arith)

lemma fl_us_round: "fl (134273 / 5) = Finite (3690868119909171 / 137438953472)"
  unfolding fl_def ilog2_def Let_def by (simp add: fl_arith)

lemma convert_us:
  "convert 1000 2 (lit ''26,854,599'') = Finite (3690868119909171 / 137438953472)"
proof -
  have "digits_val (strip_separators (lit ''26,854,599'')) = 26854599"
    by (simp add: strip_separators_def lit_def comma_def digits_val_def)
  then have "parse_decimal (strip_separators (lit ''26,854,599'')) = Finite 26854599"
    by (simp add: parse_decimal_def fl_26854599)
  then show ?thesis
    by (simp add: convert_def np_round_def fl_us_div fl_us_mul rint_us fl_us_round)
qed

lemma convert_zero: "convert 1000 2 (lit ''0'') = Finite 0"
proof -
  have "digits_val (strip_separators (lit ''0'')) = 0"
    by (simp add: strip_separators_def lit_def comma_def digits_val_def)
  then have "parse_decimal (strip_separators (lit ''0'')) = Finite 0"
    by (simp add: parse_decimal_def fl_def)
  then show ?thesis
    by (simp add: convert_def np_round_def fl_def round_half_even_def)
qed

lemma convert_thousand: "convert 1000 2 (lit ''1,000'') = Finite 1"
proof -
  have "digits_val (strip_separators (lit ''1,000'')) = 1000"
    by (simp add: strip_separators_def lit_def comma_def digits_val_def)
  then have "parse_decimal (strip_separators (lit ''1,000'')) = Finite 1000"
    by (simp add: parse_decimal_def fl_1000)
  then show ?thesis
    by (simp add: convert_def np_round_def fl_1 fl_100 round_half_even_def)
qed

lemma grouped_examples:
  "grouped_decimal (lit ''26,854,599'')" "grouped_decimal (lit ''0'')"
  "grouped_decimal (lit ''1,000'')"
  by (simp_all add: grouped_decimal_def lit_def is_digit_def comma_def)

lemma fl_cases: "(\<exists>q. fl x = Finite q) \<or> fl x = PInf \<or> fl x = NInf"
  by (simp add: fl_def Let_def)

lemma np_round_two_decimals:
  assumes "(\<exists>q. x = Finite q) \<or> x = PInf \<or> x = NInf"
  shows "(\<exists>k. np_round x 2 = fl (of_int k / 100)) \<or> np_round x 2 = PInf \<or> np_round x 2 = NInf"
proof -
  consider q where "x = Finite q" | "x = PInf" | "x = NInf" using assms by blast
  then show ?thesis
  proof cases
    case 1
    from fl_cases[of "q * 100"] consider p where "fl (q * 100) = Finite p"
      | "fl (q * 100) = PInf" | "fl (q * 100) = NInf" by blast
    then show ?thesis
    proof cases
      case (1 p)
      with \<open>x = Finite q\<close> have "np_round x 2 = fl (of_int (round_half_even p) / 100)"
        by (simp add: np_round_def)
      then show ?thesis by blast
    qed (simp_all add: np_round_def \<open>x = Finite q\<close>)
  qed (simp_all add: np_round_def)
qed

lemma convert_two_decimals:
  "(\<exists>k. convert 1000 2 s = fl (of_int k / 100))
     \<or> convert 1000 2 s = PInf \<or> convert 1000 2 s = NInf"
proof -
  let ?x = "div_by (parse_decimal (strip_separators s)) 1000"
  have "(\<exists>q. ?x = Finite q) \<or> ?x = PInf \<or> ?x = NInf"
  proof -
    from fl_cases[of "of_nat (digits_val (strip_separators s))"]
    consider q where "parse_decimal (strip_separators s) = Finite q"
      | "parse_decimal (strip_separators s) = PInf" | "parse_decimal (strip_separators s) = NInf"
      unfolding parse_decimal_def by blast
    then show ?thesis
    proof cases
      case (1 q)
      then show ?thesis using fl_cases[of "q / 1000"] by simp
    qed simp_all
  qed
  then show ?thesis unfolding convert_def by (rule np_round_two_decimals)
qed

text \<open>
  C2. For a raw Dataset whose \<open>gdp_raw\<close> values are decimal strings with grouping
  separators, \<open>transform\<close> succeeds and returns the Dataset in which every value is
  what the specification describes: the separators stripped, the remainder parsed as a
  decimal, divided by 1000 and rounded to 2 places (in binary64 arithmetic, each step
  correctly rounded). Each value is the float nearest to a number of hundredths, or an
  infinity when the digits are too many for a float. In particular \<open>"26,854,599"\<close>
  becomes a float within 0.005 of 26854.6, and \<open>"0"\<close> becomes 0.0.
\<close>

theorem unit_conversion:
  assumes "df < length h" and "h ! df = frame_of recs"
    and "\<forall>r \<in> set recs. grouped_decimal (snd r)"
  shows "(\<exists>df' h'. transform h df = Inr (df', h')
            \<and> h' ! df' = dataset_frame (map (\<lambda>r. (fst r, convert 1000 2 (snd r))) recs))
     \<and> (\<forall>r \<in> set recs. (\<exists>k. convert 1000 2 (snd r) = fl (of_int k / 100))
                           \<or> convert 1000 2 (snd r) = PInf \<or> convert 1000 2 (snd r) = NInf)
     \<and> (\<exists>v. convert 1000 2 (lit ''26,854,599'') = Finite v \<and> \<bar>v - 268546 / 10\<bar> \<le> 5 / 1000)
     \<and> convert 1000 2 (lit ''0'') = Finite 0"
proof -
  from assms(3) have a: "list_all accepted recs"
    by (auto simp: list_all_iff grouped_accepted(1))
  from assms(3) have m: "map converted recs = map (\<lambda>r. (fst r, convert 1000 2 (snd r))) recs"
    by (auto simp: grouped_accepted(2))
  have "transform h df = Inr (length h, h[df := overwritten_frame (map converted recs)]
                  @ [dataset_frame (map converted recs)])"
    using transform_frame_of[OF assms(1,2)] a by simp
  then have 1: "\<exists>df' h'. transform h df = Inr (df', h')
            \<and> h' ! df' = dataset_frame (map (\<lambda>r. (fst r, convert 1000 2 (snd r))) recs)"
    by (simp add: m nth_append)
  have 2: "\<exists>v. convert 1000 2 (lit ''26,854,599'') = Finite v \<and> \<bar>v - 268546 / 10\<bar> \<le> 5 / 1000"
    by (rule exI[of _ "3690868119909171 / 137438953472"]) (simp add: convert_us)
  have 3: "\<forall>r \<in> set recs. (\<exists>k. convert 1000 2 (snd r) = fl (of_int k / 100))
                           \<or> convert 1000 2 (snd r) = PInf \<or> convert 1000 2 (snd r) = NInf"
    using convert_two_decimals by blast
  from 1 2 3 convert_zero show ?thesis by blast
qed

theorem unit_conversion_witness:
  "\<exists>df' h'. transform [frame_of [(lit ''United States'', lit ''26,854,599''), (lit ''Nil'', lit ''0'')]] 0
       = Inr (df', h')
     \<and> h' ! df' = dataset_frame
          [(lit ''United States'', Finite (3690868119909171 / 137438953472)),
           (lit ''Nil'', Finite 0)]"
proof -
  let ?recs = "[(lit ''United States'', lit ''26,854,599''), (lit ''Nil'', lit ''0'')]"
  have g: "\<forall>r \<in> set ?recs. grouped_decimal (snd r)"
    by (simp add: grouped_examples)
  from unit_conversion[of 0 "[frame_of ?recs]" ?recs, OF _ _ g]
  show ?thesis by (simp add: convert_us convert_zero)
qed

subsection \<open>Mutation and failure\<close>

lemma setitem_columns: "columns (setitem df key vals) = columns df"
  by (induction df) (simp_all add: setitem_def columns_def)

lemma setitem_others:
  "filter (\<lambda>c. cname c \<noteq> key) (setitem df key vals) = filter (\<lambda>c. cname c \<noteq> key) df"
  by (induction df) (simp_all add: setitem_def)

lemma cells_keep_objects:
  "take (length (s_heap s)) (s_heap (snd (cell_extract w s))) = s_heap s"
  "s_heap (snd (cell_load_csv w s)) = s_heap s"
  "s_heap (snd (cell_load_db w s)) = s_heap s"
  by (auto simp: cell_extract_def cell_load_csv_def cell_load_db_def try_except_def
      body_extract_def body_load_csv_def body_load_db_def log_progress_def Let_def
      split: sum.splits option.splits)

text \<open>
  C5, as amended. The extract cell only adds an object to the store, and the CSV and
  database cells, where the schema is derived, change no object. \<open>transform\<close> returns
  a new object and leaves every other object as it was, but it assigns into the object it
  was given: after the call that object has the same column names and the same other
  columns, while its \<open>GDP_USD_millions\<close> column holds the converted floats. The
  returned object is the renamed copy of it.
\<close>

theorem transform_in_place:
  assumes "df < length h" and "transform h df = Inr (df', h')"
  shows "df' = length h \<and> length h' = Suc (length h)
     \<and> (\<forall>i < length h. i \<noteq> df \<longrightarrow> h' ! i = h ! i)
     \<and> (\<exists>floats. comprehension to_float
                      (cvalues (hd (filter (\<lambda>c. cname c = lit ''GDP_USD_millions'') (h ! df))))
                    = Inr floats
                  \<and> h' ! df = setitem (h ! df) (lit ''GDP_USD_millions'')
                                (map (\<lambda>x. np_round (div_by x 1000) 2) floats))
     \<and> columns (h' ! df) = columns (h ! df)
     \<and> filter (\<lambda>c. cname c \<noteq> lit ''GDP_USD_millions'') (h' ! df)
         = filter (\<lambda>c. cname c \<noteq> lit ''GDP_USD_millions'') (h ! df)
     \<and> h' ! df' = rename (h' ! df) (lit ''GDP_USD_millions'') (lit ''GDP_USD_billions'')
     \<and> take (length (s_heap s)) (s_heap (snd (cell_extract w s))) = s_heap s
     \<and> s_heap (snd (cell_load_csv w s)) = s_heap s
     \<and> s_heap (snd (cell_load_db w s)) = s_heap s"
proof -
  let ?key = "lit ''GDP_USD_millions''"
  from assms(2) obtain GDP_list where g: "getitem_tolist (h ! df) ?key = Inr GDP_list"
    by (auto simp: transform_def split: sum.splits)
  then obtain c where c: "filter (\<lambda>c. cname c = ?key) (h ! df) = [c]" and gl: "GDP_list = cvalues c"
    by (auto simp: getitem_tolist_def split: list.splits)
  from assms(2) g obtain floats where f: "comprehension to_float GDP_list = Inr floats"
    by (auto simp: transform_def split: sum.splits)
  let ?vals = "map (\<lambda>x. np_round (div_by x 1000) 2) floats"
  let ?h1 = "h[df := setitem (h ! df) ?key ?vals]"
  from assms(2) g f have r: "df' = length h"
    and h': "h' = ?h1 @ [rename (?h1 ! df) ?key (lit ''GDP_USD_billions'')]"
    by (auto simp: transform_def Let_def)
  have at_df: "h' ! df = setitem (h ! df) ?key ?vals"
    using assms(1) by (simp add: h' nth_append)
  have 1: "length h' = Suc (length h)" by (simp add: h')
  have 2: "\<forall>i < length h. i \<noteq> df \<longrightarrow> h' ! i = h ! i"
    by (simp add: h' nth_append)
  have 3: "\<exists>floats. comprehension to_float
                      (cvalues (hd (filter (\<lambda>c. cname c = ?key) (h ! df)))) = Inr floats
                  \<and> h' ! df = setitem (h ! df) ?key (map (\<lambda>x. np_round (div_by x 1000) 2) floats)"
    using f at_df by (auto simp: c gl)
  have 4: "columns (h' ! df) = columns (h ! df)"
    by (simp add: at_df setitem_columns)
  have 5: "filter (\<lambda>c. cname c \<noteq> ?key) (h' ! df) = filter (\<lambda>c. cname c \<noteq> ?key) (h ! df)"
    by (simp add: at_df setitem_others)
  have 6: "h' ! df' = rename (h' ! df) ?key (lit ''GDP_USD_billions'')"
    using assms(1) by (simp add: r h' nth_append)
  from r 1 2 3 4 5 6 cells_keep_objects show ?thesis by blast
qed

lemma transform_thousand:
  "transform [frame_of [(lit ''A'', lit ''1,000'')]] 0
     = Inr (1, [overwritten_frame [(lit ''A'', Finite 1)], dataset_frame [(lit ''A'', Finite 1)]])"
proof -
  let ?recs = "[(lit ''A'', lit ''1,000'')]"
  have a: "list_all accepted ?recs"
    and c: "map converted ?recs = [(lit ''A'', Finite 1)]"
    using grouped_accepted[of "(lit ''A'', lit ''1,000'')"]
    by (simp_all add: grouped_examples convert_thousand)
  have p1: "0 < length [frame_of ?recs]" by simp
  have p2: "[frame_of ?recs] ! 0 = frame_of ?recs" by simp
  show ?thesis
    unfolding transform_frame_of[OF p1 p2] c using a by simp
qed

theorem transform_in_place_witness:
  "transform [frame_of [(lit ''A'', lit ''1,000'')]] 0
     = Inr (1, [overwritten_frame [(lit ''A'', Finite 1)], dataset_frame [(lit ''A'', Finite 1)]])
   \<and> columns (overwritten_frame [(lit ''A'', Finite 1)]) = columns (frame_of [(lit ''A'', lit ''1,000'')])"
proof -
  let ?h = "[frame_of [(lit ''A'', lit ''1,000'')]]"
  let ?h' = "[overwritten_frame [(lit ''A'', Finite 1)], dataset_frame [(lit ''A'', Finite 1)]]"
  have t: "transform ?h 0 = Inr (1, ?h')" by (rule transform_thousand)
  have p: "0 < length ?h" by simp
  from transform_in_place[OF p t] have "columns (?h' ! 0) = columns (?h ! 0)" by blast
  then have "columns (overwritten_frame [(lit ''A'', Finite 1)])
      = columns (frame_of [(lit ''A'', lit ''1,000'')])"
    by simp
  with t show ?thesis by (rule conjI)
qed

text \<open>
  C5, as stated, fails: after \<open>transform\<close> the object that was passed in is no longer
  the frame it was. Its \<open>GDP_USD_millions\<close> column held the string \<open>"1,000"\<close> and
  now holds the float 1.0.
\<close>

theorem transform_in_place_counterexample:
  "transform [frame_of [(lit ''A'', lit ''1,000'')]] 0
     = Inr (1, [overwritten_frame [(lit ''A'', Finite 1)], dataset_frame [(lit ''A'', Finite 1)]])
   \<and> [overwritten_frame [(lit ''A'', Finite 1)], dataset_frame [(lit ''A'', Finite 1)]] ! 0
       \<noteq> [frame_of [(lit ''A'', lit ''1,000'')]] ! 0
   \<and> cvalues (overwritten_frame [(lit ''A'', Finite 1)] ! 1) = [Flt (Finite 1)]
   \<and> cvalues (frame_of [(lit ''A'', lit ''1,000'')] ! 1) = [Str (lit ''1,000'')]"
proof (intro conjI)
  show "transform [frame_of [(lit ''A'', lit ''1,000'')]] 0
     = Inr (1, [overwritten_frame [(lit ''A'', Finite 1)], dataset_frame [(lit ''A'', Finite 1)]])"
    by (rule transform_thousand)
qed (simp_all add: overwritten_frame_def frame_of_def)

lemma valid_decimal_accepted:
  assumes "valid_decimal s"
  shows "\<exists>d. py_float s = Some d"
proof -
  define sgn where "sgn = (case s of [] \<Rightarrow> False | c # _ \<Rightarrow> c = 43 \<or> c = 45)"
  define body where "body = (if sgn then tl s else s)"
  have body_eq: "body = (case s of [] \<Rightarrow> [] | c # t \<Rightarrow> if c = 43 \<or> c = 45 then t else s)"
    by (cases s) (auto simp: body_def sgn_def)
  define ip where "ip = takeWhile is_digit body"
  define r where "r = dropWhile is_digit body"
  from assms have ip: "ip \<noteq> []"
    and rr: "r = [] \<or> (hd r = 46 \<and> tl r \<noteq> [] \<and> list_all is_digit (tl r))"
    by (simp_all add: valid_decimal_def Let_def body_eq[symmetric] ip_def r_def)
  have b: "body = ip @ r" by (simp add: ip_def r_def)
  have ipd: "list_all is_digit ip" by (auto simp: ip_def list_all_iff dest: set_takeWhileD)
  have dot: "plain_char 46" by (simp add: plain_char_def is_space_def)
  have pb: "list_all plain_char body"
  proof (cases "r = []")
    case True
    with b ipd show ?thesis by (auto simp: list_all_iff is_digit_plain)
  next
    case False
    with rr obtain fp where r: "r = 46 # fp" and "list_all is_digit fp"
      by (cases r) auto
    with b ipd dot show ?thesis by (auto simp: list_all_iff is_digit_plain)
  qed
  have "body \<noteq> []" using ip b by simp
  then have ne: "s \<noteq> []" by (auto simp: body_eq)
  have ps: "list_all plain_char s"
  proof (cases sgn)
    case True
    then obtain c t where s: "s = c # t" and c: "c = 43 \<or> c = 45"
      by (cases s) (auto simp: sgn_def)
    then have "plain_char c" by (auto simp: plain_char_def is_space_def)
    moreover from True s have "body = t" by (simp add: body_def)
    ultimately show ?thesis using pb s by simp
  next
    case False
    then show ?thesis using pb by (simp add: body_def)
  qed
  have pn: "\<exists>q. parse_number body = Some (q, [])"
  proof (cases "r = []")
    case True
    then show ?thesis using ip
      by (simp add: parse_number_def ip_def[symmetric] r_def[symmetric] parse_exponent_def)
  next
    case False
    with rr obtain fp where r: "r = 46 # fp" and fp: "fp \<noteq> []" "list_all is_digit fp"
      by (cases r) auto
    then show ?thesis using ip
      by (simp add: parse_number_def ip_def[symmetric] r_def[symmetric] parse_exponent_def
          takeWhile_all dropWhile_all)
  qed
  then obtain q where "parse_number body = Some (q, [])" by blast
  then have "\<exists>d. float_from_string_inner s = Some d"
    by (simp add: float_from_string_inner_def sgn_def[symmetric] body_def[symmetric] Let_def)
  then show ?thesis using py_float_plain[OF ne ps] by simp
qed

lemma py_float_nan: "py_float (lit ''nan'') = Some NaN"
proof -
  have "list_all plain_char (lit ''nan'')"
    by (simp add: lit_def plain_char_def is_space_def)
  then have "py_float (lit ''nan'') = float_from_string_inner (lit ''nan'')"
    by (intro py_float_plain) (simp_all add: lit_def)
  also have "\<dots> = Some NaN"
    by (simp add: float_from_string_inner_def parse_number_def parse_inf_or_nan_def lit_def
        is_digit_def lower_def)
  finally show ?thesis .
qed

lemma py_float_12x: "py_float (lit ''12x'') = None"
proof -
  have "list_all plain_char (lit ''12x'')"
    by (simp add: lit_def plain_char_def is_space_def)
  then have "py_float (lit ''12x'') = float_from_string_inner (lit ''12x'')"
    by (intro py_float_plain) (simp_all add: lit_def)
  also have "\<dots> = None"
    by (simp add: float_from_string_inner_def parse_number_def parse_exponent_def lit_def
        is_digit_def)
  finally show ?thesis .
qed

text \<open>
  C6, as amended. On a raw Dataset \<open>transform\<close> fails with ValueError (the
  specification's NumericParseError), producing no frame, exactly when \<open>float\<close> rejects
  the stripped \<open>gdp_raw\<close> of some record, and succeeds exactly when it accepts them
  all; it accepts every decimal string, so a Dataset of decimal strings never fails.
\<close>

theorem conversion_failure:
  assumes "df < length h" and "h ! df = frame_of recs"
  shows "(transform h df = Inl ValueError
            \<longleftrightarrow> (\<exists>r \<in> set recs. py_float (strip_separators (snd r)) = None))
     \<and> ((\<exists>df' h'. transform h df = Inr (df', h'))
            \<longleftrightarrow> (\<forall>r \<in> set recs. py_float (strip_separators (snd r)) \<noteq> None))
     \<and> ((\<forall>r \<in> set recs. valid_decimal (strip_separators (snd r)))
            \<longrightarrow> (\<exists>df' h'. transform h df = Inr (df', h')))"
proof -
  have a: "list_all accepted recs \<longleftrightarrow> (\<forall>r \<in> set recs. py_float (strip_separators (snd r)) \<noteq> None)"
    by (simp add: list_all_iff accepted_def)
  have v: "(\<forall>r \<in> set recs. valid_decimal (strip_separators (snd r))) \<Longrightarrow> list_all accepted recs"
    using valid_decimal_accepted by (fastforce simp: list_all_iff accepted_def)
  show ?thesis
    using transform_frame_of[OF assms] a v by auto
qed

theorem conversion_failure_witness:
  "transform [frame_of [(lit ''A'', lit ''1,000''), (lit ''B'', lit ''12x'')]] 0 = Inl ValueError
   \<and> (\<exists>df' h'. transform [frame_of [(lit ''A'', lit ''1,000'')]] 0 = Inr (df', h'))"
proof -
  let ?bad = "[(lit ''A'', lit ''1,000''), (lit ''B'', lit ''12x'')]"
  let ?good = "[(lit ''A'', lit ''1,000'')]"
  have s: "strip_separators (lit ''12x'') = lit ''12x''"
    "strip_separators (lit ''1,000'') = lit ''1000''"
    by (simp_all add: strip_separators_def lit_def comma_def)
  have 1: "\<exists>r \<in> set ?bad. py_float (strip_separators (snd r)) = None"
    by (simp add: s py_float_12x)
  have "valid_decimal (lit ''1000'')"
    by (simp add: valid_decimal_def lit_def is_digit_def)
  then have 2: "\<forall>r \<in> set ?good. valid_decimal (strip_separators (snd r))"
    by (simp add: s)
  have pb: "0 < length [frame_of ?bad]" "[frame_of ?bad] ! 0 = frame_of ?bad" by simp_all
  have pg: "0 < length [frame_of ?good]" "[frame_of ?good] ! 0 = frame_of ?good" by simp_all
  from conversion_failure[OF pb] 1
  have b: "transform [frame_of ?bad] 0 = Inl ValueError" by blast
  from conversion_failure[OF pg] 2
  have g: "\<exists>df' h'. transform [frame_of ?good] 0 = Inr (df', h')" by blast
  from b g show ?thesis by simp
qed

text \<open>
  C6, as stated, fails: \<open>"nan"\<close> is not a decimal string, yet \<open>float\<close> accepts it and
  the conversion succeeds, with a NaN in the Dataset.
\<close>

theorem conversion_failure_counterexample:
  "\<not> valid_decimal (strip_separators (lit ''nan''))
   \<and> transform [frame_of [(lit ''X'', lit ''nan'')]] 0
       = Inr (1, [overwritten_frame [(lit ''X'', NaN)], dataset_frame [(lit ''X'', NaN)]])"
proof -
  have s: "strip_separators (lit ''nan'') = lit ''nan''"
    by (simp add: strip_separators_def lit_def comma_def)
  have 1: "\<not> valid_decimal (strip_separators (lit ''nan''))"
    unfolding s by (simp add: valid_decimal_def lit_def is_digit_def)
  have "accepted (lit ''X'', lit ''nan'')" and "converted (lit ''X'', lit ''nan'') = (lit ''X'', NaN)"
    by (simp_all add: accepted_def converted_def s py_float_nan np_round_def)
  then have a: "list_all accepted [(lit ''X'', lit ''nan'')]"
    and c: "map converted [(lit ''X'', lit ''nan'')] = [(lit ''X'', NaN)]"
    by simp_all
  have p1: "0 < length [frame_of [(lit ''X'', lit ''nan'')]]" by simp
  have p2: "[frame_of [(lit ''X'', lit ''nan'')]] ! 0 = frame_of [(lit ''X'', lit ''nan'')]" by simp
  have 2: "transform [frame_of [(lit ''X'', lit ''nan'')]] 0
       = Inr (1, [overwritten_frame [(lit ''X'', NaN)], dataset_frame [(lit ''X'', NaN)]])"
    unfolding transform_frame_of[OF p1 p2] c using a by simp
  from 1 2 show ?thesis by simp
qed

section \<open>Properties of the load\<close>

lemma map_of_assoc_update: "map_of (assoc_update k v kvs) = (map_of kvs)(k \<mapsto> v)"
  by (induction kvs) (auto simp: fun_eq_iff)

lemma table_in_update:
  "table_in (assoc_update s (assoc_update t tab tables) db) s t = Some tab"
  by (simp add: table_in_def map_of_assoc_update)

lemma names_ok:
  "identifier_ok DB_NAME" "identifier_ok TABLE_NAME"
  "identifier_ok (lit ''Country'')" "identifier_ok (lit ''GDP_USD_billions'')"
  by (simp_all add: identifier_ok_def DB_NAME_def TABLE_NAME_def lit_def lower_def is_digit_def)

lemma dataset_columns:
  "columns (dataset_frame recs) = [lit ''Country'', lit ''GDP_USD_billions'']"
  by (simp add: columns_def dataset_frame_def)

lemma dataset_keys:
  "col_key (lit ''Country'') = lit ''country''"
  "col_key (lit ''GDP_USD_billions'') = lit ''gdp_usd_billions''"
  "col_key (lit ''id'') = lit ''id''"
  by (simp_all add: col_key_def lit_def lower_def)

lemma dataset_derive:
  "derive (dataset_frame recs) = [(lit ''Country'', VARCHAR_255), (lit ''GDP_USD_billions'', FLOAT)]"
  by (simp add: derive_def dataset_frame_def)

lemma dataset_columns_sql:
  "columns_sql (dataset_frame recs) = lit ''`Country` VARCHAR(255), `GDP_USD_billions` FLOAT''"
  by (simp add: columns_sql_def dataset_frame_def lit_def)

lemma dataset_DML: "DML [lit ''Country'', lit ''GDP_USD_billions''] = insert_text"
  by (simp add: DML_def insert_text_def TABLE_NAME_def lit_def numeral_2_eq_2)

lemma dataset_records:
  "to_records (dataset_frame recs) = map (\<lambda>r. [Str (fst r), Flt (snd r)]) recs"
  by (rule nth_equalityI) (simp_all add: to_records_def dataset_frame_def nrows_def)

lemma ddl_texts:
  "lit ''CREATE SCHEMA IF NOT EXISTS `'' @ DB_NAME @ lit ''`'' = fst (ddl_statements ! 0)"
  "lit ''USE `'' @ DB_NAME @ lit ''`'' = fst (ddl_statements ! 1)"
  "lit ''CREATE TABLE IF NOT EXISTS `'' @ TABLE_NAME
     @ lit ''` (id INT AUTO_INCREMENT PRIMARY KEY, '' @ columns_sql (dataset_frame recs) @ lit '')''
   = fst (ddl_statements ! 2)"
  by (simp_all add: ddl_statements_def DB_NAME_def TABLE_NAME_def dataset_columns_sql lit_def)

lemma insert_dataset_records:
  assumes "current c = Some DB_NAME"
    and "map_of (work c) DB_NAME = Some tables"
    and "map_of tables TABLE_NAME = Some tab"
    and "set [lit ''country'', lit ''gdp_usd_billions''] \<subseteq> set (map col_key (map fst (tcolumns tab)))"
  shows "\<exists>c'. insert_records [lit ''Country'', lit ''GDP_USD_billions'']
                 (map (\<lambda>r. [Str (fst r), Flt (snd r)]) recs) c = (None, c')
             \<and> table_in (work c') DB_NAME TABLE_NAME
                 = Some (tab\<lparr>trows := trows tab @ map record_row recs\<rparr>)
             \<and> executed c' = executed c
                 @ map (\<lambda>r. (insert_text, [Str (fst r), Flt (snd r)])) recs"
  using assms
proof (induction recs arbitrary: c tables tab)
  case Nil
  then show ?case by (simp add: table_in_def)
next
  case (Cons r recs)
  let ?cols = "[lit ''Country'', lit ''GDP_USD_billions'']"
  let ?c1 = "c\<lparr>executed := executed c @ [(insert_text, [Str (fst r), Flt (snd r)])]\<rparr>"
  let ?tab = "tab\<lparr>trows := trows tab @ [record_row r]\<rparr>"
  let ?tables = "assoc_update TABLE_NAME ?tab tables"
  let ?c2 = "?c1\<lparr>work := assoc_update DB_NAME ?tables (work c)\<rparr>"
  have d: "distinct [lit ''country'', lit ''gdp_usd_billions'']" by (simp add: lit_def)
  have run: "run_stmt (INSERT_INTO TABLE_NAME ?cols) [Str (fst r), Flt (snd r)] ?c1 = Inr ?c2"
    using Cons.prems d by (simp add: dataset_keys record_row_def del: distinct.simps)
  have step: "cursor_execute (DML ?cols) (INSERT_INTO TABLE_NAME ?cols) [Str (fst r), Flt (snd r)] c
      = (None, ?c2)"
    using run by (simp add: cursor_execute_def Let_def names_ok dataset_DML
        del: run_stmt.simps)
  have p: "current ?c2 = Some DB_NAME" "map_of (work ?c2) DB_NAME = Some ?tables"
    "map_of ?tables TABLE_NAME = Some ?tab"
    "set [lit ''country'', lit ''gdp_usd_billions''] \<subseteq> set (map col_key (map fst (tcolumns ?tab)))"
    using Cons.prems by (simp_all add: map_of_assoc_update)
  from Cons.IH[OF p] obtain c' where
    i: "insert_records ?cols (map (\<lambda>r. [Str (fst r), Flt (snd r)]) recs) ?c2 = (None, c')"
    and t: "table_in (work c') DB_NAME TABLE_NAME
              = Some (?tab\<lparr>trows := trows ?tab @ map record_row recs\<rparr>)"
    and e: "executed c' = executed ?c2 @ map (\<lambda>r. (insert_text, [Str (fst r), Flt (snd r)])) recs"
    by blast
  have "insert_records ?cols (map (\<lambda>r. [Str (fst r), Flt (snd r)]) (r # recs)) c = (None, c')"
    using step i by (simp del: cursor_execute_def)
  moreover have "table_in (work c') DB_NAME TABLE_NAME
      = Some (tab\<lparr>trows := trows tab @ map record_row (r # recs)\<rparr>)"
    using t by simp
  moreover have "executed c' = executed c
      @ map (\<lambda>r. (insert_text, [Str (fst r), Flt (snd r)])) (r # recs)"
    using e by simp
  ultimately show ?case by blast
qed

lemma keys_distinct: "distinct [lit ''id'', lit ''country'', lit ''gdp_usd_billions'']"
  by (simp add: lit_def)

lemma ddl_phase:
  "\<exists>c3 tables.
     and_then
       (and_then
          (cursor_execute (lit ''CREATE SCHEMA IF NOT EXISTS `'' @ DB_NAME @ lit ''`'')
             (CREATE_SCHEMA_IF_NOT_EXISTS DB_NAME) []
             \<lparr>committed = db, work = db, current = None, executed = []\<rparr>)
          (cursor_execute (lit ''USE `'' @ DB_NAME @ lit ''`'') (USE DB_NAME) []))
       (cursor_execute
          (lit ''CREATE TABLE IF NOT EXISTS `'' @ TABLE_NAME
           @ lit ''` (id INT AUTO_INCREMENT PRIMARY KEY, '' @ columns_sql (dataset_frame recs)
           @ lit '')'')
          (CREATE_TABLE_IF_NOT_EXISTS TABLE_NAME (derive (dataset_frame recs))) [])
     = (None, c3)
     \<and> current c3 = Some DB_NAME
     \<and> map_of (work c3) DB_NAME = Some tables
     \<and> map_of tables TABLE_NAME = Some (table_before db)
     \<and> executed c3 = ddl_statements"
proof -
  let ?c0 = "\<lparr>committed = db, work = db, current = None, executed = []\<rparr>"
  let ?d1 = "if map_of db DB_NAME = None then assoc_update DB_NAME [] db else db"
  let ?t0 = "case map_of db DB_NAME of None \<Rightarrow> [] | Some ts \<Rightarrow> ts"
  let ?c1 = "\<lparr>committed = ?d1, work = ?d1, current = None, executed = [ddl_statements ! 0]\<rparr>"
  let ?c2 = "\<lparr>committed = ?d1, work = ?d1, current = Some DB_NAME,
              executed = [ddl_statements ! 0, ddl_statements ! 1]\<rparr>"
  have s1: "cursor_execute (lit ''CREATE SCHEMA IF NOT EXISTS `'' @ DB_NAME @ lit ''`'')
             (CREATE_SCHEMA_IF_NOT_EXISTS DB_NAME) [] ?c0 = (None, ?c1)"
    unfolding ddl_texts by (simp add: cursor_execute_def Let_def names_ok ddl_statements_def)
  have m1: "map_of ?d1 DB_NAME = Some ?t0"
    by (auto simp: map_of_assoc_update)
  have s2: "cursor_execute (lit ''USE `'' @ DB_NAME @ lit ''`'') (USE DB_NAME) [] ?c1 = (None, ?c2)"
    unfolding ddl_texts using m1 by (simp add: cursor_execute_def Let_def names_ok ddl_statements_def)
  have tb: "table_in db DB_NAME TABLE_NAME = map_of ?t0 TABLE_NAME"
    by (simp add: table_in_def split: option.splits)
  let ?text = "lit ''CREATE TABLE IF NOT EXISTS `'' @ TABLE_NAME
           @ lit ''` (id INT AUTO_INCREMENT PRIMARY KEY, '' @ columns_sql (dataset_frame recs)
           @ lit '')''"
  have kd: "distinct (map col_key (map fst (id_column # derive (dataset_frame recs))))"
    using keys_distinct by (simp add: dataset_derive id_column_def dataset_keys del: distinct.simps)
  have ok3: "list_all identifier_ok
       (names_of (CREATE_TABLE_IF_NOT_EXISTS TABLE_NAME (derive (dataset_frame recs))))"
    by (simp add: dataset_derive names_ok)
  have ne: "derive (dataset_frame recs) \<noteq> []" by (simp add: dataset_derive)
  have "\<exists>c3 tables.
      cursor_execute ?text (CREATE_TABLE_IF_NOT_EXISTS TABLE_NAME (derive (dataset_frame recs))) [] ?c2
        = (None, c3)
      \<and> current c3 = Some DB_NAME \<and> map_of (work c3) DB_NAME = Some tables
      \<and> map_of tables TABLE_NAME = Some (table_before db) \<and> executed c3 = ddl_statements"
  proof (cases "map_of ?t0 TABLE_NAME")
    case None
    let ?ts = "assoc_update TABLE_NAME \<lparr>tcolumns = id_column # derive (dataset_frame recs), trows = []\<rparr> ?t0"
    let ?d3 = "assoc_update DB_NAME ?ts ?d1"
    let ?c3 = "\<lparr>committed = ?d3, work = ?d3, current = Some DB_NAME, executed = ddl_statements\<rparr>"
    have "run_stmt (CREATE_TABLE_IF_NOT_EXISTS TABLE_NAME (derive (dataset_frame recs))) []
            (?c2\<lparr>executed := executed ?c2 @ [(?text, [])]\<rparr>) = Inr ?c3"
      unfolding ddl_texts using m1 None kd ne
      by (simp add: Let_def ddl_statements_def del: distinct.simps)
    then have "cursor_execute ?text
        (CREATE_TABLE_IF_NOT_EXISTS TABLE_NAME (derive (dataset_frame recs))) [] ?c2 = (None, ?c3)"
      using ok3 by (simp add: cursor_execute_def Let_def del: run_stmt.simps names_of.simps)
    moreover have "map_of (work ?c3) DB_NAME = Some ?ts" by (simp add: map_of_assoc_update)
    moreover have "map_of ?ts TABLE_NAME = Some (table_before db)"
      using None tb by (simp add: map_of_assoc_update table_before_def new_table_def dataset_derive)
    ultimately show ?thesis by fastforce
  next
    case (Some tab)
    let ?c3 = "\<lparr>committed = ?d1, work = ?d1, current = Some DB_NAME, executed = ddl_statements\<rparr>"
    have "run_stmt (CREATE_TABLE_IF_NOT_EXISTS TABLE_NAME (derive (dataset_frame recs))) []
            (?c2\<lparr>executed := executed ?c2 @ [(?text, [])]\<rparr>) = Inr ?c3"
      unfolding ddl_texts using m1 Some kd ne
      by (simp add: Let_def ddl_statements_def del: distinct.simps)
    then have "cursor_execute ?text
        (CREATE_TABLE_IF_NOT_EXISTS TABLE_NAME (derive (dataset_frame recs))) [] ?c2 = (None, ?c3)"
      using ok3 by (simp add: cursor_execute_def Let_def del: run_stmt.simps names_of.simps)
    moreover have "map_of (work ?c3) DB_NAME = Some ?t0" using m1 by simp
    moreover have "map_of ?t0 TABLE_NAME = Some (table_before db)"
      using Some tb by (simp add: table_before_def)
    ultimately show ?thesis by fastforce
  qed
  then show ?thesis using s1 s2 by (simp del: cursor_execute_def)
qed

lemma load_dataset:
  assumes "set [lit ''country'', lit ''gdp_usd_billions'']
           \<subseteq> set (map col_key (map fst (tcolumns (table_before db))))"
  shows "raised (load_to_db None (dataset_frame recs) db) = None
     \<and> table_in (store (load_to_db None (dataset_frame recs) db)) DB_NAME TABLE_NAME
         = Some ((table_before db)\<lparr>trows := trows (table_before db) @ map record_row recs\<rparr>)
     \<and> statements (load_to_db None (dataset_frame recs) db)
         = ddl_statements @ map (\<lambda>r. (insert_text, [Str (fst r), Flt (snd r)])) recs"
proof -
  from ddl_phase[of db recs] obtain c3 tables where
    ch: "and_then
       (and_then
          (cursor_execute (lit ''CREATE SCHEMA IF NOT EXISTS `'' @ DB_NAME @ lit ''`'')
             (CREATE_SCHEMA_IF_NOT_EXISTS DB_NAME) []
             \<lparr>committed = db, work = db, current = None, executed = []\<rparr>)
          (cursor_execute (lit ''USE `'' @ DB_NAME @ lit ''`'') (USE DB_NAME) []))
       (cursor_execute
          (lit ''CREATE TABLE IF NOT EXISTS `'' @ TABLE_NAME
           @ lit ''` (id INT AUTO_INCREMENT PRIMARY KEY, '' @ columns_sql (dataset_frame recs)
           @ lit '')'')
          (CREATE_TABLE_IF_NOT_EXISTS TABLE_NAME (derive (dataset_frame recs))) [])
     = (None, c3)"
    and cur: "current c3 = Some DB_NAME"
    and w: "map_of (work c3) DB_NAME = Some tables"
    and t: "map_of tables TABLE_NAME = Some (table_before db)"
    and ex: "executed c3 = ddl_statements"
    by blast
  from insert_dataset_records[OF cur w t assms, of recs] obtain c' where
    i: "insert_records [lit ''Country'', lit ''GDP_USD_billions'']
          (map (\<lambda>r. [Str (fst r), Flt (snd r)]) recs) c3 = (None, c')"
    and t': "table_in (work c') DB_NAME TABLE_NAME
               = Some ((table_before db)\<lparr>trows := trows (table_before db) @ map record_row recs\<rparr>)"
    and e': "executed c' = executed c3 @ map (\<lambda>r. (insert_text, [Str (fst r), Flt (snd r)])) recs"
    by blast
  have d: "distinct (columns (dataset_frame recs))"
    by (simp add: dataset_columns lit_def)
  have "load_to_db None (dataset_frame recs) db
      = \<lparr>raised = None, store = work c', statements = executed c'\<rparr>"
    unfolding load_to_db_def Let_def using d
    by (simp add: ch i dataset_columns dataset_records del: cursor_execute_def)
  then show ?thesis using t' e' ex by simp
qed

lemma derive_names: "map fst (derive df) = columns df"
  by (simp add: derive_def columns_def comp_def)

lemma table_before_absent: "table_in db DB_NAME TABLE_NAME = None \<Longrightarrow> table_before db = new_table"
  by (simp add: table_before_def)

lemma new_table_keys:
  "set [lit ''country'', lit ''gdp_usd_billions'']
     \<subseteq> set (map col_key (map fst (id_column # derive (dataset_frame recs))))"
  by (simp add: dataset_derive dataset_keys)

text \<open>
  C7. The derived schema lists the columns of the frame in order, a column of dtype
  object (text) as \<open>VARCHAR(255)\<close>, the specification's TEXT, and any other column as
  \<open>FLOAT\<close>, its NUMBER. For a Dataset it is \<open>Country\<close> as text and
  \<open>GDP_USD_billions\<close> as number whatever the records are, so deriving it again gives
  the same mapping. When the store has no such table, the load creates it with the
  auto-incrementing \<open>id\<close> column followed by exactly these columns.
\<close>

theorem schema_derivation:
  assumes "table_in db DB_NAME TABLE_NAME = None"
  shows "map fst (derive df) = columns df
     \<and> (\<forall>c \<in> set df. (cname c, if cdtype c = Object then VARCHAR_255 else FLOAT) \<in> set (derive df))
     \<and> derive (dataset_frame recs) = [(lit ''Country'', VARCHAR_255), (lit ''GDP_USD_billions'', FLOAT)]
     \<and> derive (dataset_frame recs) = derive (dataset_frame recs')
     \<and> raised (load_to_db None (dataset_frame recs) db) = None
     \<and> (\<exists>t. table_in (store (load_to_db None (dataset_frame recs) db)) DB_NAME TABLE_NAME = Some t
             \<and> tcolumns t = id_column # derive (dataset_frame recs))
     \<and> ddl_statements ! 2 \<in> set (statements (load_to_db None (dataset_frame recs) db))"
proof -
  have tb: "table_before db = new_table" using assms by (rule table_before_absent)
  have k: "set [lit ''country'', lit ''gdp_usd_billions'']
      \<subseteq> set (map col_key (map fst (tcolumns (table_before db))))"
    using new_table_keys[of recs] by (simp add: tb new_table_def dataset_derive)
  note l = load_dataset[OF k, of recs]
  have 1: "\<forall>c \<in> set df. (cname c, if cdtype c = Object then VARCHAR_255 else FLOAT) \<in> set (derive df)"
    by (auto simp: derive_def)
  have 2: "derive (dataset_frame recs) = derive (dataset_frame recs')"
    by (simp add: dataset_derive)
  have 3: "\<exists>t. table_in (store (load_to_db None (dataset_frame recs) db)) DB_NAME TABLE_NAME = Some t
             \<and> tcolumns t = id_column # derive (dataset_frame recs)"
    using l by (simp add: tb new_table_def dataset_derive)
  have 4: "ddl_statements ! 2 \<in> set (statements (load_to_db None (dataset_frame recs) db))"
    using l by (simp add: ddl_statements_def)
  from derive_names dataset_derive 1 2 3 4 l show ?thesis by blast
qed

theorem schema_derivation_witness:
  "\<exists>t. table_in (store (load_to_db None (dataset_frame [(lit ''A'', Finite 1)]) [])) DB_NAME TABLE_NAME
         = Some t
       \<and> tcolumns t = [(lit ''id'', INT_AUTO_INCREMENT_PRIMARY_KEY), (lit ''Country'', VARCHAR_255),
                        (lit ''GDP_USD_billions'', FLOAT)]"
proof -
  have a: "table_in [] DB_NAME TABLE_NAME = None" by (simp add: table_in_def)
  from schema_derivation[OF a, of "[]" "[(lit ''A'', Finite 1)]" "[]"]
  obtain t where
    "table_in (store (load_to_db None (dataset_frame [(lit ''A'', Finite 1)]) [])) DB_NAME TABLE_NAME
       = Some t"
    and "tcolumns t = id_column # derive (dataset_frame [(lit ''A'', Finite 1)])"
    by blast
  then show ?thesis by (simp add: id_column_def dataset_derive)
qed

text \<open>
  C8. A load appends one row per record of the Dataset to the rows the table has, in
  order, and changes no row that was there; a second load of the same Dataset appends the
  same rows again, so a table that was empty or absent ends with twice as many rows as
  the Dataset has records. Every insert is sent as the same text, with a placeholder
  \<open>%s\<close> per column, and the values of the record as its parameters.
\<close>

theorem table_sink_append_only:
  assumes "tcolumns (table_before db) = id_column # derive (dataset_frame recs)"
  shows "(let once = load_to_db None (dataset_frame recs) db;
              twice = load_to_db None (dataset_frame recs) (store once)
          in raised once = None \<and> raised twice = None
             \<and> table_in (store once) DB_NAME TABLE_NAME
                 = Some ((table_before db)\<lparr>trows := trows (table_before db) @ map record_row recs\<rparr>)
             \<and> table_in (store twice) DB_NAME TABLE_NAME
                 = Some ((table_before db)\<lparr>trows := trows (table_before db) @ map record_row recs
                                                       @ map record_row recs\<rparr>)
             \<and> (trows (table_before db) = [] \<longrightarrow>
                   (\<exists>t. table_in (store twice) DB_NAME TABLE_NAME = Some t
                       \<and> length (trows t) = 2 * length recs))
             \<and> statements once
                 = ddl_statements @ map (\<lambda>r. (insert_text, [Str (fst r), Flt (snd r)])) recs
             \<and> statements twice = statements once)"
proof -
  let ?df = "dataset_frame recs"
  let ?once = "load_to_db None ?df db"
  let ?twice = "load_to_db None ?df (store ?once)"
  let ?t1 = "(table_before db)\<lparr>trows := trows (table_before db) @ map record_row recs\<rparr>"
  have k: "set [lit ''country'', lit ''gdp_usd_billions'']
      \<subseteq> set (map col_key (map fst (tcolumns (table_before db))))"
    using new_table_keys[of recs] by (simp add: assms)
  note l1 = load_dataset[OF k, of recs]
  from l1 have tb1: "table_before (store ?once) = ?t1"
    by (simp add: table_before_def)
  have k1: "set [lit ''country'', lit ''gdp_usd_billions'']
      \<subseteq> set (map col_key (map fst (tcolumns (table_before (store ?once)))))"
    using k by (simp add: tb1)
  note l2 = load_dataset[OF k1, of recs]
  have a: "raised ?once = None" "raised ?twice = None" using l1 l2 by simp_all
  have b: "table_in (store ?once) DB_NAME TABLE_NAME = Some ?t1" using l1 by simp
  have c: "table_in (store ?twice) DB_NAME TABLE_NAME
      = Some ((table_before db)\<lparr>trows := trows (table_before db) @ map record_row recs
                                            @ map record_row recs\<rparr>)"
    using l2 by (simp add: tb1)
  have d: "trows (table_before db) = [] \<longrightarrow>
      (\<exists>t. table_in (store ?twice) DB_NAME TABLE_NAME = Some t \<and> length (trows t) = 2 * length recs)"
    using c by simp
  have e: "statements ?once
      = ddl_statements @ map (\<lambda>r. (insert_text, [Str (fst r), Flt (snd r)])) recs"
    using l1 by simp
  have f: "statements ?twice = statements ?once" using l1 l2 by simp
  from a b c d e f show ?thesis unfolding Let_def by blast
qed

theorem table_sink_append_only_witness:
  "\<exists>t. table_in
         (store (load_to_db None (dataset_frame [(lit ''A'', Finite 1), (lit ''B'', Finite 2)])
            (store (load_to_db None (dataset_frame [(lit ''A'', Finite 1), (lit ''B'', Finite 2)]) []))))
         DB_NAME TABLE_NAME = Some t
       \<and> length (trows t) = 4"
proof -
  have tb: "table_before [] = new_table" by (simp add: table_before_def table_in_def)
  have a: "tcolumns (table_before [])
      = id_column # derive (dataset_frame [(lit ''A'', Finite 1), (lit ''B'', Finite 2)])"
    by (simp add: tb new_table_def dataset_derive)
  have e: "trows (table_before []) = []" by (simp add: tb new_table_def)
  from table_sink_append_only[OF a] e show ?thesis unfolding Let_def by simp
qed

section \<open>Properties of the notebook\<close>












text \<open>
  C10. In the query cell, when \<open>run_query\<close> raises and \<open>quey_statement\<close> was never
  assigned, the handler logs the query error, and the \<open>finally\<close> block then raises a
  NameError that leaves the cell. The log gains the error line alone; it is not a
  \<open>Query made\<close> line.
\<close>

theorem query_failure_escapes:
  assumes "run_query (w_connect w) (w_read_sql w) (lit ''SELECT * FROM Countries_by_GDP'') (s_db s) = Inl e"
    and "s_quey_statement s = None"
  shows "cell_query w s
           = (Some NameError, log_progress (lit ''Error while querying data: '' @ w_str w e) s)
     \<and> s_log (snd (cell_query w s)) = s_log s @ [lit ''Error while querying data: '' @ w_str w e]
     \<and> (\<forall>q. lit ''Error while querying data: '' @ w_str w e \<noteq> lit ''Query made: '' @ q)"
proof -
  have b: "body_query w s = (Some e, s)" using assms(1) by (simp add: body_query_def)
  have "cell_query w s
      = (Some NameError, log_progress (lit ''Error while querying data: '' @ w_str w e) s)"
    using assms(2)
    by (simp add: cell_query_def try_except_finally_def try_except_def b final_query_def
        log_progress_def)
  moreover have "\<forall>q. lit ''Error while querying data: '' @ w_str w e \<noteq> lit ''Query made: '' @ q"
    by (simp add: lit_def)
  ultimately show ?thesis by (simp add: log_progress_def)
qed

theorem query_failure_escapes_witness:
  "cell_query offline (fresh [])
     = (Some NameError, (fresh [])\<lparr>s_log := [lit ''Error while querying data: error'']\<rparr>)"
proof -
  have r: "run_query (w_connect offline) (w_read_sql offline) (lit ''SELECT * FROM Countries_by_GDP'')
             (s_db (fresh [])) = Inl DatabaseError"
    by (simp add: run_query_def offline_def)
  have q: "s_quey_statement (fresh []) = None" by (simp add: fresh_def)
  from query_failure_escapes[OF r q]
  show ?thesis by (simp add: log_progress_def fresh_def offline_def lit_def)
qed

subsection \<open>A run from the page to the table\<close>

lemma extract_soup3:
  "extract_data (\<lambda>u. Inr soup3) URL TABLE_ATTRIBS = Inr (frame_of [(lit ''A'', lit ''1,000'')])"
proof -
  have "extract_data (\<lambda>u. Inr soup3) URL TABLE_ATTRIBS
      = extract_rows (frame_of []) [header_row, row_A, row_B, row_C]"
    by (simp add: extract_data_def table_rows_def find_all_tbody_soup3 find_all_tr_third
        frame_of_Nil Let_def del: extract_rows.simps)
  also have "\<dots> = extract_rows (frame_of []) [row_A, row_B, row_C]"
    by (rule extract_row_dropped) (rule example_rows_dropped)
  also have "\<dots> = Inr (frame_of [(lit ''A'', lit ''1,000'')])"
    using extract_rows_acc[of "[row_A, row_B, row_C]" "[]"]
    by (auto simp: example_rows_readable example_rows_included record_of_row_A)
  finally show ?thesis .
qed

text \<open>
  A whole run in a world where nothing raises and the page is \<open>soup3\<close>: the one
  eligible row is extracted, converted from \<open>"1,000"\<close> millions to 1.0 billions,
  written to the file and inserted into the new table, and every cell logs its success.
\<close>

lemma online_run:
  "run_cells (pipeline online) (fresh [])
     = (None,
        \<lparr>s_heap = [overwritten_frame [(lit ''A'', Finite 1)], dataset_frame [(lit ''A'', Finite 1)]],
         s_df = Some 1,
         s_quey_statement = None,
         s_log = [lit ''Data extracted successfuly'', lit ''Data transformed successfuly'',
                  lit ''Data loaded to CSV successfuly'', lit ''Database successfuly connected'',
                  lit ''Data loaded to DB successfuly''],
         s_csv = Some (dataset_frame [(lit ''A'', Finite 1)]),
         s_db = store (load_to_db None (dataset_frame [(lit ''A'', Finite 1)]) [])\<rparr>)"
proof -
  have w: "w_web online = (\<lambda>u. Inr soup3)" "w_to_csv online = None" "w_connect online = None"
    by (simp_all add: online_def)
  have k: "set [lit ''country'', lit ''gdp_usd_billions'']
      \<subseteq> set (map col_key (map fst (tcolumns (table_before []))))"
    by (simp add: table_before_def table_in_def new_table_def id_column_def dataset_keys)
  have r: "raised (load_to_db None (dataset_frame [(lit ''A'', Finite 1)]) []) = None"
    using load_dataset[OF k] by blast
  show ?thesis
    by (simp add: pipeline_def cell_extract_def cell_transform_def cell_load_csv_def
        cell_connect_def cell_load_db_def try_except_def body_extract_def body_transform_def
        body_load_csv_def body_connect_def body_load_db_def name_df_def load_to_csv_def
        w extract_soup3 transform_thousand r fresh_def log_progress_def Let_def)
qed

lemma online_table:
  "table_in (s_db (snd (run_cells (pipeline online) (fresh [])))) DB_NAME TABLE_NAME
     = Some (new_table\<lparr>trows := [record_row (lit ''A'', Finite 1)]\<rparr>)"
proof -
  have tb: "table_before [] = new_table" by (simp add: table_before_def table_in_def)
  have k: "set [lit ''country'', lit ''gdp_usd_billions'']
      \<subseteq> set (map col_key (map fst (tcolumns (table_before []))))"
    by (simp add: tb new_table_def id_column_def dataset_keys)
  from load_dataset[OF k, of "[(lit ''A'', Finite 1)]"] show ?thesis
    by (simp add: online_run tb new_table_def)
qed

end
